theory Spec2Isabelle
  imports Complex_Main
begin

section \<open>Errors raised by the server\<close>

text \<open>
  The servers throw \<^verbatim>\<open>McpError(code, message)\<close> and plain \<^verbatim>\<open>Error(message)\<close>.
  Every throw and every promise rejection of the source is a value of this type.
\<close>

datatype error_code = InvalidRequest | InvalidParams | InternalError | MethodNotFound

datatype error = McpError error_code string | Error string

section \<open>Rate limiter and request id allocator\<close>

text \<open>
  The module-level variables \<^verbatim>\<open>requestCounter\<close> and \<^verbatim>\<open>requestTimestamps\<close>.
  \<^verbatim>\<open>Date.now()\<close> is an integral number of milliseconds; it is passed in as \<open>now\<close>.
  The ceiling \<^verbatim>\<open>CONFIG.MAX_REQUESTS_PER_SECOND\<close> is the first argument \<open>maxPerSec\<close>.
\<close>

record limiter =
  requestCounter :: int
  requestTimestamps :: "int list"

definition MAX_REQUESTS_PER_SECOND :: nat where
  "MAX_REQUESTS_PER_SECOND = 40"

definition rateLimitError :: error where
  "rateLimitError = McpError InvalidRequest ''Rate limit exceeded''"

text \<open>
  \<^verbatim>\<open>checkRateLimit\<close>: the assignment of the filtered array happens before the
  test, so a rejected call still leaves the pruned window behind.
\<close>

definition checkRateLimit :: "nat \<Rightarrow> int \<Rightarrow> limiter \<Rightarrow> (error + unit) \<times> limiter" where
  "checkRateLimit maxPerSec now s =
     (let ts = filter (\<lambda>t. now - t < 1000) (requestTimestamps s) in
      if maxPerSec \<le> length ts
      then (Inl rateLimitError, s\<lparr>requestTimestamps := ts\<rparr>)
      else (Inr (), s\<lparr>requestTimestamps := ts @ [now]\<rparr>))"

text \<open>\<^verbatim>\<open>getNextReqId\<close>: \<^verbatim>\<open>checkRateLimit(); return requestCounter++\<close>.\<close>

definition getNextReqId :: "nat \<Rightarrow> int \<Rightarrow> limiter \<Rightarrow> (error + int) \<times> limiter" where
  "getNextReqId maxPerSec now s =
     (case checkRateLimit maxPerSec now s of
        (Inl e, s') \<Rightarrow> (Inl e, s')
      | (Inr _, s') \<Rightarrow> (Inr (requestCounter s'), s'\<lparr>requestCounter := requestCounter s' + 1\<rparr>))"

text \<open>A sequence of admission attempts, one per clock reading, in order.\<close>

fun admitAll :: "nat \<Rightarrow> int list \<Rightarrow> limiter \<Rightarrow> (error + unit) list \<times> limiter" where
  "admitAll maxPerSec [] s = ([], s)"
| "admitAll maxPerSec (now # nows) s =
     (case checkRateLimit maxPerSec now s of
        (r, s') \<Rightarrow> (case admitAll maxPerSec nows s' of (rs, s'') \<Rightarrow> (r # rs, s'')))"

fun getNextReqIds :: "nat \<Rightarrow> int list \<Rightarrow> limiter \<Rightarrow> (error + int) list \<times> limiter" where
  "getNextReqIds maxPerSec [] s = ([], s)"
| "getNextReqIds maxPerSec (now # nows) s =
     (case getNextReqId maxPerSec now s of
        (r, s') \<Rightarrow> (case getNextReqIds maxPerSec nows s' of (rs, s'') \<Rightarrow> (r # rs, s'')))"

text \<open>The ids that the successful calls of a run returned, in order.\<close>

fun returnedIds :: "(error + int) list \<Rightarrow> int list" where
  "returnedIds [] = []"
| "returnedIds (Inl e # rs) = returnedIds rs"
| "returnedIds (Inr i # rs) = i # returnedIds rs"

subsection \<open>Properties of the rate limiter\<close>

lemma checkRateLimit_reject:
  "maxPerSec \<le> length (filter (\<lambda>t. now - t < 1000) (requestTimestamps s)) \<Longrightarrow>
   checkRateLimit maxPerSec now s =
     (Inl rateLimitError, s\<lparr>requestTimestamps := filter (\<lambda>t. now - t < 1000) (requestTimestamps s)\<rparr>)"
  by (simp add: checkRateLimit_def)

lemma checkRateLimit_admit:
  "length (filter (\<lambda>t. now - t < 1000) (requestTimestamps s)) < maxPerSec \<Longrightarrow>
   checkRateLimit maxPerSec now s =
     (Inr (), s\<lparr>requestTimestamps := filter (\<lambda>t. now - t < 1000) (requestTimestamps s) @ [now]\<rparr>)"
  by (simp add: checkRateLimit_def)

lemma filter_all_kept: "\<forall>t\<in>set xs. P t \<Longrightarrow> filter P xs = xs"
  by (induction xs) auto

lemma filter_drops_one:
  assumes "x \<in> set xs" and "\<not> P x"
  shows "length (filter P xs) < length xs"
  using assms by (induction xs) (auto simp: less_Suc_eq_le)

lemma admitAll_same_window:
  assumes "\<forall>u\<in>set nows. \<forall>t\<in>set (pre @ nows). u - t < 1000"
    and "length pre + length nows \<le> maxPerSec"
    and "requestTimestamps s = pre"
  shows "admitAll maxPerSec nows s =
           (replicate (length nows) (Inr ()), s\<lparr>requestTimestamps := pre @ nows\<rparr>)"
  using assms
proof (induction nows arbitrary: pre s)
  case Nil
  then show ?case by simp
next
  case (Cons now nows)
  have kept: "filter (\<lambda>t. now - t < 1000) (requestTimestamps s) = pre"
    using Cons.prems(1,3) by (intro filter_all_kept[THEN trans]) auto
  have room: "length pre < maxPerSec"
    using Cons.prems(2) by simp
  have step: "checkRateLimit maxPerSec now s = (Inr (), s\<lparr>requestTimestamps := pre @ [now]\<rparr>)"
    using checkRateLimit_admit[of now s maxPerSec] kept room by simp
  have rest: "admitAll maxPerSec nows (s\<lparr>requestTimestamps := pre @ [now]\<rparr>) =
      (replicate (length nows) (Inr ()),
       s\<lparr>requestTimestamps := pre @ [now]\<rparr>\<lparr>requestTimestamps := (pre @ [now]) @ nows\<rparr>)"
  proof (rule Cons.IH)
    show "\<forall>u\<in>set nows. \<forall>t\<in>set ((pre @ [now]) @ nows). u - t < 1000"
      using Cons.prems(1) by auto
    show "length (pre @ [now]) + length nows \<le> maxPerSec"
      using Cons.prems(2) by simp
    show "requestTimestamps (s\<lparr>requestTimestamps := pre @ [now]\<rparr>) = pre @ [now]"
      by simp
  qed
  show ?case
    by (simp add: step rest)
qed

lemma admitAll_append:
  "admitAll maxPerSec (xs @ ys) s =
     (case admitAll maxPerSec xs s of
        (rs, s') \<Rightarrow> (case admitAll maxPerSec ys s' of (rs', s'') \<Rightarrow> (rs @ rs', s'')))"
  by (induction xs arbitrary: s) (auto split: prod.splits)

lemma checkRateLimit_bounded:
  assumes "length (requestTimestamps s) \<le> maxPerSec"
  shows "length (requestTimestamps (snd (checkRateLimit maxPerSec now s))) \<le> maxPerSec"
proof -
  have "length (filter (\<lambda>t. now - t < 1000) (requestTimestamps s)) \<le> maxPerSec"
    using assms length_filter_le[of "\<lambda>t. now - t < 1000" "requestTimestamps s"] by linarith
  then show ?thesis
    by (auto simp: checkRateLimit_def Let_def)
qed

lemma checkRateLimit_after_slide:
  assumes "length (requestTimestamps s) \<le> maxPerSec"
    and "requestTimestamps s \<noteq> []"
    and "1000 \<le> later - hd (requestTimestamps s)"
  shows "checkRateLimit maxPerSec later s =
     (Inr (), s\<lparr>requestTimestamps := filter (\<lambda>t. later - t < 1000) (requestTimestamps s) @ [later]\<rparr>)"
proof -
  have "hd (requestTimestamps s) \<in> set (requestTimestamps s)"
    using assms(2) by simp
  moreover have "\<not> later - hd (requestTimestamps s) < 1000"
    using assms(3) by simp
  ultimately have "length (filter (\<lambda>t. later - t < 1000) (requestTimestamps s))
      < length (requestTimestamps s)"
    by (rule filter_drops_one)
  then have "length (filter (\<lambda>t. later - t < 1000) (requestTimestamps s)) < maxPerSec"
    using assms(1) by linarith
  then show ?thesis
    by (rule checkRateLimit_admit)
qed

lemma admitAll_then_reject:
  assumes "length nows = maxPerSec"
    and "requestTimestamps s = []"
    and "\<forall>u\<in>set (nows @ [now]). \<forall>t\<in>set (nows @ [now]). u - t < 1000"
  shows "admitAll maxPerSec (nows @ [now]) s =
     (replicate maxPerSec (Inr ()) @ [Inl rateLimitError], s\<lparr>requestTimestamps := nows\<rparr>)"
proof -
  have first: "admitAll maxPerSec nows s =
      (replicate (length nows) (Inr ()), s\<lparr>requestTimestamps := [] @ nows\<rparr>)"
    by (rule admitAll_same_window) (use assms in auto)
  have "filter (\<lambda>t. now - t < 1000) nows = nows"
    by (rule filter_all_kept) (use assms(3) in auto)
  then have last: "checkRateLimit maxPerSec now (s\<lparr>requestTimestamps := nows\<rparr>) =
      (Inl rateLimitError, s\<lparr>requestTimestamps := nows\<rparr>)"
    using checkRateLimit_reject[of maxPerSec now "s\<lparr>requestTimestamps := nows\<rparr>"] assms(1)
    by simp
  show ?thesis
    using first last assms(1) by (simp add: admitAll_append)
qed

text \<open>
  C6. With ceiling \<open>maxPerSec\<close>: the window is pruned to the entries younger than one
  second before the decision; an attempt that finds \<open>maxPerSec\<close> entries in the pruned
  window is rejected with the rate-limit error and records no timestamp, otherwise it is
  admitted and records \<open>now\<close>; after \<open>maxPerSec\<close> admissions, one more attempt in the same
  rolling second is rejected; and once the window has slid past the oldest recorded
  timestamp the next attempt is admitted.
\<close>

theorem rate_limit_rolling_window:
  "(maxPerSec \<le> length (filter (\<lambda>t. now - t < 1000) (requestTimestamps s)) \<longrightarrow>
      checkRateLimit maxPerSec now s =
        (Inl rateLimitError,
         s\<lparr>requestTimestamps := filter (\<lambda>t. now - t < 1000) (requestTimestamps s)\<rparr>))
   \<and> (length (filter (\<lambda>t. now - t < 1000) (requestTimestamps s)) < maxPerSec \<longrightarrow>
      checkRateLimit maxPerSec now s =
        (Inr (),
         s\<lparr>requestTimestamps := filter (\<lambda>t. now - t < 1000) (requestTimestamps s) @ [now]\<rparr>))
   \<and> (length nows = maxPerSec \<and> requestTimestamps s = [] \<and>
        (\<forall>u\<in>set (nows @ [now]). \<forall>t\<in>set (nows @ [now]). u - t < 1000) \<longrightarrow>
      admitAll maxPerSec (nows @ [now]) s =
        (replicate maxPerSec (Inr ()) @ [Inl rateLimitError], s\<lparr>requestTimestamps := nows\<rparr>))
   \<and> (length (requestTimestamps s) \<le> maxPerSec \<and> requestTimestamps s \<noteq> [] \<and>
        1000 \<le> later - hd (requestTimestamps s) \<longrightarrow>
      fst (checkRateLimit maxPerSec later s) = Inr ())
   \<and> (length (requestTimestamps s) \<le> maxPerSec \<longrightarrow>
      length (requestTimestamps (snd (checkRateLimit maxPerSec now s))) \<le> maxPerSec)"
  using checkRateLimit_reject[of maxPerSec now s] checkRateLimit_admit[of now s maxPerSec]
    admitAll_then_reject[of nows maxPerSec s now] checkRateLimit_after_slide[of s maxPerSec later]
    checkRateLimit_bounded[of s maxPerSec now]
  by simp

text \<open>
  The theorem at ceiling 2: attempts at 0 ms and 400 ms are admitted, the third at 900 ms
  is rejected and leaves the window \<open>[0, 400]\<close>; at 1000 ms the window has slid past the
  oldest entry and the attempt is admitted.
\<close>

theorem rate_limit_rolling_window_witness:
  "admitAll 2 [0, 400, 900] \<lparr>requestCounter = 10000, requestTimestamps = []\<rparr> =
     ([Inr (), Inr (), Inl rateLimitError], \<lparr>requestCounter = 10000, requestTimestamps = [0, 400]\<rparr>)
   \<and> checkRateLimit 2 900 \<lparr>requestCounter = 10000, requestTimestamps = [0, 400]\<rparr> =
     (Inl rateLimitError, \<lparr>requestCounter = 10000, requestTimestamps = [0, 400]\<rparr>)
   \<and> checkRateLimit 2 900 \<lparr>requestCounter = 10000, requestTimestamps = [0]\<rparr> =
     (Inr (), \<lparr>requestCounter = 10000, requestTimestamps = [0, 900]\<rparr>)
   \<and> fst (checkRateLimit 2 1000 \<lparr>requestCounter = 10000, requestTimestamps = [0, 400]\<rparr>) = Inr ()
   \<and> length (requestTimestamps (snd (checkRateLimit 2 900
        \<lparr>requestCounter = 10000, requestTimestamps = [0, 400]\<rparr>))) \<le> 2"
  using rate_limit_rolling_window[of 2 900 "\<lparr>requestCounter = 10000, requestTimestamps = [0, 400]\<rparr>"
      "[]" 1000]
    rate_limit_rolling_window[of 2 900 "\<lparr>requestCounter = 10000, requestTimestamps = [0]\<rparr>"
      "[]" 1000]
    rate_limit_rolling_window[of 2 900 "\<lparr>requestCounter = 10000, requestTimestamps = []\<rparr>"
      "[0, 400]" 1000]
  by (simp add: numeral_2_eq_2)

subsection \<open>Properties of the id allocator\<close>

lemma getNextReqId_rejected:
  "fst (getNextReqId maxPerSec now s) = Inl e \<Longrightarrow>
   requestCounter (snd (getNextReqId maxPerSec now s)) = requestCounter s"
  by (auto simp: getNextReqId_def checkRateLimit_def Let_def split: if_splits)

lemma getNextReqId_cases:
  "(\<exists>e. fst (getNextReqId maxPerSec now s) = Inl e \<and>
        requestCounter (snd (getNextReqId maxPerSec now s)) = requestCounter s)
   \<or> (fst (getNextReqId maxPerSec now s) = Inr (requestCounter s) \<and>
        requestCounter (snd (getNextReqId maxPerSec now s)) = requestCounter s + 1)"
  by (auto simp: getNextReqId_def checkRateLimit_def Let_def)

lemma consecutive_from_Suc:
  "map (\<lambda>i. c + int i) [0..<Suc k] = c # map (\<lambda>i. (c + 1) + int i) [0..<k]"
proof -
  have "[0..<Suc k] = 0 # map Suc [0..<k]"
    by (simp add: upt_conv_Cons map_Suc_upt del: upt_Suc)
  then show ?thesis
    by (simp add: comp_def del: upt_Suc)
qed

lemma getNextReqIds_consecutive:
  "returnedIds (fst (getNextReqIds maxPerSec nows s)) =
     map (\<lambda>i. requestCounter s + int i)
       [0..<length (returnedIds (fst (getNextReqIds maxPerSec nows s)))]
   \<and> requestCounter (snd (getNextReqIds maxPerSec nows s)) =
     requestCounter s + int (length (returnedIds (fst (getNextReqIds maxPerSec nows s))))"
proof (induction nows arbitrary: s)
  case Nil
  then show ?case by simp
next
  case (Cons now nows)
  obtain r s' where step: "getNextReqId maxPerSec now s = (r, s')"
    by (cases "getNextReqId maxPerSec now s")
  obtain rs s'' where rest: "getNextReqIds maxPerSec nows s' = (rs, s'')"
    by (cases "getNextReqIds maxPerSec nows s'")
  have IH: "returnedIds rs = map (\<lambda>i. requestCounter s' + int i) [0..<length (returnedIds rs)]"
    "requestCounter s'' = requestCounter s' + int (length (returnedIds rs))"
    using Cons.IH[of s'] rest by simp_all
  from getNextReqId_cases[of maxPerSec now s] step
  consider (rejected) e where "r = Inl e" "requestCounter s' = requestCounter s"
    | (issued) "r = Inr (requestCounter s)" "requestCounter s' = requestCounter s + 1"
    by auto
  then show ?case
  proof cases
    case rejected
    then show ?thesis
      using IH by (simp add: step rest)
  next
    case issued
    have "requestCounter s # returnedIds rs =
        map (\<lambda>i. requestCounter s + int i) [0..<Suc (length (returnedIds rs))]"
      using IH(1) issued(2) by (simp only: consecutive_from_Suc)
    then show ?thesis
      using IH(2) issued by (simp add: step rest del: upt_Suc)
  qed
qed

text \<open>
  C10. A call of \<^verbatim>\<open>getNextReqId\<close> that throws the rate-limit error leaves
  \<^verbatim>\<open>requestCounter\<close> unchanged, so over any sequence of calls the ids returned by the
  successful ones are the consecutive integers starting at the counter's initial value,
  and the counter ends at the initial value plus the number of successes.
\<close>

theorem rejected_admission_allocates_no_id:
  "(\<forall>e. fst (getNextReqId maxPerSec now s) = Inl e \<longrightarrow>
        requestCounter (snd (getNextReqId maxPerSec now s)) = requestCounter s)
   \<and> returnedIds (fst (getNextReqIds maxPerSec nows s)) =
       map (\<lambda>i. requestCounter s + int i)
         [0..<length (returnedIds (fst (getNextReqIds maxPerSec nows s)))]
   \<and> requestCounter (snd (getNextReqIds maxPerSec nows s)) =
       requestCounter s + int (length (returnedIds (fst (getNextReqIds maxPerSec nows s))))"
  using getNextReqId_rejected[of maxPerSec now s] getNextReqIds_consecutive[of maxPerSec nows s]
  by blast

text \<open>
  The theorem at ceiling 2 from counter 10000: calls at 0, 10, 20 and 1005 ms; the third
  is rejected, and the ids returned are 10000, 10001, 10002.
\<close>

theorem rejected_admission_allocates_no_id_witness:
  "fst (getNextReqId 2 20 \<lparr>requestCounter = 10002, requestTimestamps = [0, 10]\<rparr>) = Inl rateLimitError
   \<and> requestCounter (snd (getNextReqId 2 20 \<lparr>requestCounter = 10002, requestTimestamps = [0, 10]\<rparr>))
       = 10002
   \<and> fst (getNextReqIds 2 [0, 10, 20, 1005] \<lparr>requestCounter = 10000, requestTimestamps = []\<rparr>) =
       [Inr 10000, Inr 10001, Inl rateLimitError, Inr 10002]
   \<and> returnedIds (fst (getNextReqIds 2 [0, 10, 20, 1005]
         \<lparr>requestCounter = 10000, requestTimestamps = []\<rparr>)) = [10000, 10001, 10002]
   \<and> requestCounter (snd (getNextReqIds 2 [0, 10, 20, 1005]
         \<lparr>requestCounter = 10000, requestTimestamps = []\<rparr>)) = 10003"
  using rejected_admission_allocates_no_id[of 2 20
      "\<lparr>requestCounter = 10002, requestTimestamps = [0, 10]\<rparr>" "[]"]
    rejected_admission_allocates_no_id[of 2 20
      "\<lparr>requestCounter = 10000, requestTimestamps = []\<rparr>" "[0, 10, 20, 1005]"]
  by (simp add: getNextReqId_def checkRateLimit_def)

section \<open>Derived metrics: aggregate Greeks\<close>

text \<open>
  JavaScript numbers are modelled as reals: the sums below are exact, where the source
  rounds each operation to a double. A Greek that the ingestion marked unavailable is
  \<^verbatim>\<open>null\<close> (\<open>None\<close>); a position whose sub-request timed out has no \<^verbatim>\<open>greeks\<close>
  object at all.
\<close>

record greeks =
  delta :: "real option"
  gamma :: "real option"
  vega :: "real option"
  theta :: "real option"
  impliedVol :: "real option"
  underlyingPrice :: "real option"

record contract =
  symbol :: string
  secType :: string
  multiplier :: "real option"

record option_position =
  account :: string
  contract :: contract
  position :: real
  avgCost :: real
  greeks :: "greeks option"

text \<open>The running totals \<^verbatim>\<open>aggregate.delta\<close>, \<^verbatim>\<open>aggregate.gamma\<close>, ...\<close>

record aggregate =
  agg_delta :: real
  agg_gamma :: real
  agg_vega :: real
  agg_theta :: real

text \<open>
  \<^verbatim>\<open>x || d\<close> on a number that may be \<^verbatim>\<open>null\<close> or \<^verbatim>\<open>undefined\<close>: the default
  replaces a missing value and also the falsy number 0.
\<close>

definition js_or :: "real option \<Rightarrow> real \<Rightarrow> real" where
  "js_or x d = (case x of None \<Rightarrow> d | Some v \<Rightarrow> if v = 0 then d else v)"

text \<open>The body of the loop of \<^verbatim>\<open>calculateAggregateGreeks\<close>.\<close>

definition addPosition :: "aggregate \<Rightarrow> option_position \<Rightarrow> aggregate" where
  "addPosition a pos =
     (case greeks pos of
        None \<Rightarrow> a
      | Some g \<Rightarrow>
          (let m = position pos * js_or (multiplier (contract pos)) 100 in
           a\<lparr>agg_delta := agg_delta a + js_or (delta g) 0 * m,
             agg_gamma := agg_gamma a + js_or (gamma g) 0 * m,
             agg_vega := agg_vega a + js_or (vega g) 0 * position pos,
             agg_theta := agg_theta a + js_or (theta g) 0 * position pos\<rparr>))"

definition aggregateGreeks :: "option_position list \<Rightarrow> aggregate" where
  "aggregateGreeks positions =
     foldl addPosition \<lparr>agg_delta = 0, agg_gamma = 0, agg_vega = 0, agg_theta = 0\<rparr> positions"

text \<open>
  \<^verbatim>\<open>calculateAggregateGreeks\<close> returns the totals formatted by \<^verbatim>\<open>Number.toFixed\<close>,
  which is a parameter here: (delta, gamma, vega, theta) with 2, 4, 2 and 2 digits.
\<close>

definition calculateAggregateGreeks ::
  "(nat \<Rightarrow> real \<Rightarrow> string) \<Rightarrow> option_position list \<Rightarrow> string \<times> string \<times> string \<times> string" where
  "calculateAggregateGreeks toFixed positions =
     (let a = aggregateGreeks positions in
      (toFixed 2 (agg_delta a), toFixed 4 (agg_gamma a),
       toFixed 2 (agg_vega a), toFixed 2 (agg_theta a)))"

text \<open>
  The specification's reading of the aggregate: one term \<open>value * weight\<close> for every
  position whose value is present, and no term for the others.
\<close>

definition presentTerms ::
  "(greeks \<Rightarrow> real option) \<Rightarrow> (option_position \<Rightarrow> real) \<Rightarrow> option_position list \<Rightarrow> real list" where
  "presentTerms field weight positions =
     concat (map (\<lambda>p. case greeks p of
                          None \<Rightarrow> []
                        | Some g \<Rightarrow> (case field g of None \<Rightarrow> [] | Some v \<Rightarrow> [v * weight p]))
                 positions)"

definition contractWeight :: "option_position \<Rightarrow> real" where
  "contractWeight p = position p * js_or (multiplier (contract p)) 100"

text \<open>An option position of 10 contracts whose four Greeks all have the value \<open>v\<close>.\<close>

definition tenContracts :: "real option \<Rightarrow> real option \<Rightarrow> option_position" where
  "tenContracts mult v =
     \<lparr>account = ''DU1'',
      contract = \<lparr>symbol = ''AAPL'', secType = ''OPT'', multiplier = mult\<rparr>,
      position = 10, avgCost = 1,
      greeks = Some \<lparr>delta = v, gamma = v, vega = v, theta = v,
                     impliedVol = None, underlyingPrice = None\<rparr>\<rparr>"

subsection \<open>Absent values contribute no term\<close>

lemma js_or_zero_term: "js_or x 0 * w = (case x of None \<Rightarrow> 0 | Some v \<Rightarrow> v * w)"
  by (simp add: js_or_def split: option.split)

lemma foldl_addPosition_terms:
  "agg_delta (foldl addPosition a ps) = agg_delta a + sum_list (presentTerms delta contractWeight ps)
   \<and> agg_gamma (foldl addPosition a ps) = agg_gamma a + sum_list (presentTerms gamma contractWeight ps)
   \<and> agg_vega (foldl addPosition a ps) = agg_vega a + sum_list (presentTerms vega position ps)
   \<and> agg_theta (foldl addPosition a ps) = agg_theta a + sum_list (presentTerms theta position ps)"
proof (induction ps arbitrary: a)
  case Nil
  then show ?case by (simp add: presentTerms_def)
next
  case (Cons p ps)
  show ?case
  proof (cases "greeks p")
    case None
    then show ?thesis
      using Cons.IH[of a] by (simp add: addPosition_def presentTerms_def)
  next
    case (Some g)
    then show ?thesis
      using Cons.IH[of "addPosition a p"]
      by (simp add: addPosition_def presentTerms_def contractWeight_def Let_def js_or_zero_term
          split: option.split)
  qed
qed

text \<open>
  C8. Each aggregate of \<^verbatim>\<open>calculateAggregateGreeks\<close> is the sum of \<open>value * weight\<close> over
  the positions whose value is present: an absent value (and a position without Greeks)
  contributes no term and does not abort the fold. Vega and theta are weighted by the
  position's quantity, delta and gamma by quantity times contract multiplier. Values
  \<open>[0.5, absent, 0.3]\<close> with quantities \<open>[10, 10, 10]\<close> give \<open>0.5 * 10 + 0.3 * 10 = 8\<close>
  for vega and theta, and for delta and gamma when the contract multiplier is 1.
\<close>

theorem absent_greeks_excluded:
  "agg_delta (aggregateGreeks ps) = sum_list (presentTerms delta contractWeight ps)
   \<and> agg_gamma (aggregateGreeks ps) = sum_list (presentTerms gamma contractWeight ps)
   \<and> agg_vega (aggregateGreeks ps) = sum_list (presentTerms vega position ps)
   \<and> agg_theta (aggregateGreeks ps) = sum_list (presentTerms theta position ps)
   \<and> calculateAggregateGreeks toFixed ps =
       (toFixed 2 (sum_list (presentTerms delta contractWeight ps)),
        toFixed 4 (sum_list (presentTerms gamma contractWeight ps)),
        toFixed 2 (sum_list (presentTerms vega position ps)),
        toFixed 2 (sum_list (presentTerms theta position ps)))
   \<and> presentTerms vega position
        [tenContracts mult (Some 0.5), tenContracts mult None, tenContracts mult (Some 0.3)]
       = [0.5 * 10, 0.3 * 10]
   \<and> agg_vega (aggregateGreeks
        [tenContracts mult (Some 0.5), tenContracts mult None, tenContracts mult (Some 0.3)]) = 8
   \<and> agg_theta (aggregateGreeks
        [tenContracts mult (Some 0.5), tenContracts mult None, tenContracts mult (Some 0.3)]) = 8
   \<and> agg_delta (aggregateGreeks
        [tenContracts (Some 1) (Some 0.5), tenContracts (Some 1) None,
         tenContracts (Some 1) (Some 0.3)]) = 8
   \<and> agg_gamma (aggregateGreeks
        [tenContracts (Some 1) (Some 0.5), tenContracts (Some 1) None,
         tenContracts (Some 1) (Some 0.3)]) = 8"
proof -
  have general:
    "agg_delta (aggregateGreeks qs) = sum_list (presentTerms delta contractWeight qs)"
    "agg_gamma (aggregateGreeks qs) = sum_list (presentTerms gamma contractWeight qs)"
    "agg_vega (aggregateGreeks qs) = sum_list (presentTerms vega position qs)"
    "agg_theta (aggregateGreeks qs) = sum_list (presentTerms theta position qs)" for qs
    using foldl_addPosition_terms[of "\<lparr>agg_delta = 0, agg_gamma = 0, agg_vega = 0, agg_theta = 0\<rparr>" qs]
    by (simp_all add: aggregateGreeks_def)
  have formatted: "calculateAggregateGreeks toFixed ps =
       (toFixed 2 (sum_list (presentTerms delta contractWeight ps)),
        toFixed 4 (sum_list (presentTerms gamma contractWeight ps)),
        toFixed 2 (sum_list (presentTerms vega position ps)),
        toFixed 2 (sum_list (presentTerms theta position ps)))"
    by (simp add: calculateAggregateGreeks_def Let_def general)
  have example: "presentTerms vega position
        [tenContracts mult (Some 0.5), tenContracts mult None, tenContracts mult (Some 0.3)]
       = [0.5 * 10, 0.3 * 10]"
    "sum_list (presentTerms vega position
        [tenContracts mult (Some 0.5), tenContracts mult None, tenContracts mult (Some 0.3)]) = 8"
    "sum_list (presentTerms theta position
        [tenContracts mult (Some 0.5), tenContracts mult None, tenContracts mult (Some 0.3)]) = 8"
    "sum_list (presentTerms delta contractWeight
        [tenContracts (Some 1) (Some 0.5), tenContracts (Some 1) None,
         tenContracts (Some 1) (Some 0.3)]) = 8"
    "sum_list (presentTerms gamma contractWeight
        [tenContracts (Some 1) (Some 0.5), tenContracts (Some 1) None,
         tenContracts (Some 1) (Some 0.3)]) = 8"
    by (simp_all add: presentTerms_def tenContracts_def contractWeight_def js_or_def)
  show ?thesis
    using formatted example by (simp only: general)
qed

section \<open>Connection manager\<close>

text \<open>The members of \<^verbatim>\<open>EventName\<close> that the sources bind handlers to.\<close>

datatype event_name =
    E_error | E_connected | E_disconnected | E_connectionClosed
  | E_position | E_positionEnd
  | E_accountSummary | E_accountSummaryEnd
  | E_tickPrice | E_tickSize | E_tickOptionComputation
  | E_orderStatus | E_openOrder | E_openOrderEnd

subsection \<open>\<^verbatim>\<open>ConnectionConfigSchema\<close>\<close>

text \<open>
  The value found under a key of the tool's arguments, as far as the schema tells values
  apart: a missing key, a string, a finite number, \<^verbatim>\<open>NaN\<close>, and anything else (\<^verbatim>\<open>null\<close>,
  a boolean, an object, ...). The two infinite numbers are not represented.
\<close>

datatype js_value = JsUndefined | JsString string | JsNumber real | JsNaN | JsOther

record connect_args =
  arg_host :: js_value
  arg_port :: js_value
  arg_clientId :: js_value
  arg_account :: js_value

record connection_config =
  cfg_host :: string
  cfg_port :: real
  cfg_clientId :: real
  cfg_account :: "string option"

text \<open>
  \<^verbatim>\<open>z.string().default(d)\<close> and \<^verbatim>\<open>z.string().optional()\<close> accept a missing key and a
  string, \<^verbatim>\<open>z.number().default(d)\<close> a missing key and a number other than \<^verbatim>\<open>NaN\<close>;
  every other value is an issue at its key.
\<close>

definition stringIssue :: "string \<Rightarrow> js_value \<Rightarrow> string list" where
  "stringIssue key v = (case v of JsUndefined \<Rightarrow> [] | JsString _ \<Rightarrow> [] | _ \<Rightarrow> [key])"

definition numberIssue :: "string \<Rightarrow> js_value \<Rightarrow> string list" where
  "numberIssue key v = (case v of JsUndefined \<Rightarrow> [] | JsNumber _ \<Rightarrow> [] | _ \<Rightarrow> [key])"

definition stringOr :: "string \<Rightarrow> js_value \<Rightarrow> string" where
  "stringOr d v = (case v of JsString s \<Rightarrow> s | _ \<Rightarrow> d)"

definition numberOr :: "real \<Rightarrow> js_value \<Rightarrow> real" where
  "numberOr d v = (case v of JsNumber x \<Rightarrow> x | _ \<Rightarrow> d)"

definition optionalString :: "js_value \<Rightarrow> string option" where
  "optionalString v = (case v of JsString s \<Rightarrow> Some s | _ \<Rightarrow> None)"

text \<open>
  \<^verbatim>\<open>ConnectionConfigSchema.parse(args)\<close>: \<open>None\<close> stands for arguments that are not an
  object (the request carried none), which is an issue at the root, written as the empty
  key. \<open>Inl\<close> is the thrown \<^verbatim>\<open>ZodError\<close>, given by the keys of its issues.
\<close>

definition parseConfig :: "connect_args option \<Rightarrow> string list + connection_config" where
  "parseConfig args =
     (case args of
        None \<Rightarrow> Inl [[]]
      | Some a \<Rightarrow>
          (let issues = stringIssue ''host'' (arg_host a) @ numberIssue ''port'' (arg_port a)
                 @ numberIssue ''clientId'' (arg_clientId a)
                 @ stringIssue ''account'' (arg_account a)
           in if issues = []
              then Inr \<lparr>cfg_host = stringOr ''127.0.0.1'' (arg_host a),
                        cfg_port = numberOr 7497 (arg_port a),
                        cfg_clientId = numberOr 0 (arg_clientId a),
                        cfg_account = optionalString (arg_account a)\<rparr>
              else Inl issues))"

definition noArgs :: connect_args where
  "noArgs = \<lparr>arg_host = JsUndefined, arg_port = JsUndefined, arg_clientId = JsUndefined,
             arg_account = JsUndefined\<rparr>"

definition defaultConfig :: connection_config where
  "defaultConfig =
     \<lparr>cfg_host = ''127.0.0.1'', cfg_port = 7497, cfg_clientId = 0, cfg_account = None\<rparr>"

subsection \<open>\<^verbatim>\<open>class TWSConnection\<close>\<close>

text \<open>
  The fields \<^verbatim>\<open>config\<close> and \<^verbatim>\<open>connected\<close>, and of the wrapped \<^verbatim>\<open>IBApi\<close> what the
  class does to it: how often \<^verbatim>\<open>api.connect\<close> and \<^verbatim>\<open>api.disconnect\<close> were called and
  which events it has bound a handler to with \<^verbatim>\<open>api.on\<close>.
\<close>

record tws_connection =
  config :: connection_config
  connected :: bool
  apiConnectCalls :: nat
  apiDisconnectCalls :: nat
  apiHandlers :: "event_name list"

definition newTWSConnection :: "connection_config \<Rightarrow> tws_connection" where
  "newTWSConnection cfg =
     \<lparr>config = cfg, connected = False, apiConnectCalls = 0, apiDisconnectCalls = 0,
      apiHandlers = []\<rparr>"

text \<open>
  \<^verbatim>\<open>connect()\<close> runs up to \<^verbatim>\<open>await this.api.connect(...)\<close> and is resumed with the
  transport's answer: \<open>None\<close> when the call returned, \<open>Some msg\<close> when it threw a value
  that \<^verbatim>\<open>${error}\<close> renders as \<open>msg\<close>.
\<close>

datatype connect_progress = Returned | AwaitingTransport

definition connect_start :: "tws_connection \<Rightarrow> connect_progress \<times> tws_connection" where
  "connect_start c =
     (if connected c then (Returned, c)
      else (AwaitingTransport, c\<lparr>apiConnectCalls := apiConnectCalls c + 1\<rparr>))"

definition connect_resume :: "string option \<Rightarrow> tws_connection \<Rightarrow> (error + unit) \<times> tws_connection" where
  "connect_resume transport c =
     (case transport of
        None \<Rightarrow>
          (Inr (), c\<lparr>connected := True,
                     apiHandlers := apiHandlers c @ [E_error, E_connected, E_disconnected]\<rparr>)
      | Some msg \<Rightarrow>
          (Inl (Error (''Failed to connect to TWS: '' @ msg)), c\<lparr>connected := False\<rparr>))"

definition connect :: "string option \<Rightarrow> tws_connection \<Rightarrow> (error + unit) \<times> tws_connection" where
  "connect transport c =
     (case connect_start c of
        (Returned, c') \<Rightarrow> (Inr (), c')
      | (AwaitingTransport, c') \<Rightarrow> connect_resume transport c')"

text \<open>
  \<^verbatim>\<open>disconnect()\<close>, given the answer of \<^verbatim>\<open>await this.api.disconnect()\<close>: \<open>None\<close> when
  it returned, \<open>Some thrown\<close> when it threw a value that \<^verbatim>\<open>${error}\<close> renders as
  \<open>thrown\<close>. The exception is not caught, so the flag is then left as it was.
\<close>

definition disconnect :: "string option \<Rightarrow> tws_connection \<Rightarrow> (string + unit) \<times> tws_connection" where
  "disconnect answer c =
     (if connected c
      then (case answer of
              None \<Rightarrow>
                (Inr (), c\<lparr>apiDisconnectCalls := apiDisconnectCalls c + 1, connected := False\<rparr>)
            | Some thrown \<Rightarrow> (Inl thrown, c\<lparr>apiDisconnectCalls := apiDisconnectCalls c + 1\<rparr>))
      else (Inr (), c))"

subsection \<open>The \<^verbatim>\<open>connect\<close> tool of the modular server\<close>

text \<open>
  A template literal is kept as the list of its pieces: literal text, a number, a
  \<^verbatim>\<open>ZodError\<close> (by the keys of its issues) and an \<^verbatim>\<open>Error\<close> object stand for the text
  that interpolation gives them.
\<close>

datatype piece = Lit string | Num real | ZodText "string list" | ErrorText error

datatype tool_error = ToolError error_code "piece list"

text \<open>\<^verbatim>\<open>new McpError(ErrorCode.InternalError, `Failed to connect: ${error}`)\<close>\<close>

definition failedToConnect :: "piece \<Rightarrow> tool_error" where
  "failedToConnect p = ToolError InternalError [Lit ''Failed to connect: '', p]"

text \<open>\<^verbatim>\<open>`Connected to TWS at ${config.host}:${config.port}`\<close>\<close>

definition connectedText :: "connection_config \<Rightarrow> piece list" where
  "connectedText cfg = [Lit ''Connected to TWS at '', Lit (cfg_host cfg), Lit '':'', Num (cfg_port cfg)]"

text \<open>
  The handler of the tool, with the module variable \<^verbatim>\<open>connection\<close> (\<open>None\<close> for
  \<^verbatim>\<open>null\<close>). Parsing the arguments, disconnecting the existing connection and connecting
  the new one all happen inside one \<^verbatim>\<open>try\<close>, whose \<^verbatim>\<open>catch\<close> rethrows whatever was thrown
  as an \<^verbatim>\<open>McpError\<close>. The variable is assigned only after the existing connection has been
  disconnected, and before the new one connects. The result is what the handler returns or
  throws, the variable afterwards, and the connection that was replaced, if one was.
\<close>

definition connectTool ::
  "connect_args option \<Rightarrow> string option \<Rightarrow> string option \<Rightarrow> tws_connection option \<Rightarrow>
     (tool_error + piece list) \<times> tws_connection option \<times> tws_connection option" where
  "connectTool args answer transport connection =
     (case parseConfig args of
        Inl issues \<Rightarrow> (Inl (failedToConnect (ZodText issues)), connection, None)
      | Inr cfg \<Rightarrow>
          (case (case connection of
                   None \<Rightarrow> (Inr (), None)
                 | Some c \<Rightarrow> (case disconnect answer c of (r, c') \<Rightarrow> (r, Some c'))) of
             (Inl thrown, old) \<Rightarrow> (Inl (failedToConnect (Lit thrown)), old, None)
           | (Inr _, old) \<Rightarrow>
               (case connect transport (newTWSConnection cfg) of
                  (Inr _, c) \<Rightarrow> (Inr (connectedText cfg), Some c, old)
                | (Inl e, c) \<Rightarrow> (Inl (failedToConnect (ErrorText e)), Some c, old))))"

definition establishedConnection :: tws_connection where
  "establishedConnection =
     \<lparr>config = defaultConfig, connected = True, apiConnectCalls = 1, apiDisconnectCalls = 0,
      apiHandlers = [E_error, E_connected, E_disconnected]\<rparr>"

subsection \<open>Connecting twice\<close>

text \<open>
  C9 as stated fails: \<^verbatim>\<open>connect()\<close> on an established connection returns normally,
  and so does the \<^verbatim>\<open>connect\<close> tool.
\<close>

theorem connect_while_connected_counterexample:
  "\<not> (\<exists>e. fst (connect None establishedConnection) = Inl e)
   \<and> \<not> (\<exists>e. fst (connectTool (Some noArgs) None None (Some establishedConnection)) = Inl e)"
  by (simp add: connect_def connect_start_def connect_resume_def connectTool_def
      establishedConnection_def newTWSConnection_def disconnect_def parseConfig_def noArgs_def
      stringIssue_def numberIssue_def)

lemma connect_connected: "connected c \<Longrightarrow> connect transport c = (Inr (), c)"
  by (simp add: connect_def connect_start_def)

lemma connect_fresh_ok:
  "\<not> connected c \<Longrightarrow>
   connect None c =
     (Inr (), c\<lparr>apiConnectCalls := apiConnectCalls c + 1, connected := True,
                apiHandlers := apiHandlers c @ [E_error, E_connected, E_disconnected]\<rparr>)"
  by (simp add: connect_def connect_start_def connect_resume_def)

lemma connect_fresh_rejected:
  "\<not> connected c \<Longrightarrow>
   connect (Some msg) c =
     (Inl (Error (''Failed to connect to TWS: '' @ msg)),
      c\<lparr>apiConnectCalls := apiConnectCalls c + 1, connected := False\<rparr>)"
  by (simp add: connect_def connect_start_def connect_resume_def)

lemma connect_in_flight:
  "\<not> connected c \<Longrightarrow>
   connect_start (snd (connect_start c)) =
     (AwaitingTransport, c\<lparr>apiConnectCalls := apiConnectCalls c + 2\<rparr>)"
  by (simp add: connect_start_def)

lemma connect_fails_iff:
  "(\<exists>e. fst (connect transport c) = Inl e) \<longleftrightarrow> \<not> connected c \<and> transport \<noteq> None"
  by (cases transport; cases "connected c")
    (simp_all add: connect_connected connect_fresh_ok connect_fresh_rejected)

lemma parseConfig_noArgs: "parseConfig (Some noArgs) = Inr defaultConfig"
  by (simp add: parseConfig_def noArgs_def defaultConfig_def stringIssue_def numberIssue_def
      stringOr_def numberOr_def optionalString_def)

lemma parseConfig_port_text:
  "parseConfig (Some (noArgs\<lparr>arg_port := JsString ''7497''\<rparr>)) = Inl [''port'']"
  by (simp add: parseConfig_def noArgs_def stringIssue_def numberIssue_def)

lemma connectTool_unparsed:
  "parseConfig args = Inl issues \<Longrightarrow>
   connectTool args answer transport connection =
     (Inl (ToolError InternalError [Lit ''Failed to connect: '', ZodText issues]),
      connection, None)"
  by (simp add: connectTool_def failedToConnect_def)

lemma connectTool_first:
  "parseConfig args = Inr cfg \<Longrightarrow>
   connectTool args answer None None =
     (Inr [Lit ''Connected to TWS at '', Lit (cfg_host cfg), Lit '':'', Num (cfg_port cfg)],
      Some \<lparr>config = cfg, connected = True, apiConnectCalls = 1, apiDisconnectCalls = 0,
            apiHandlers = [E_error, E_connected, E_disconnected]\<rparr>,
      None)"
  by (simp add: connectTool_def connect_def connect_start_def connect_resume_def
      newTWSConnection_def connectedText_def)

lemma connectTool_replaces:
  "parseConfig args = Inr cfg \<Longrightarrow> connected c \<Longrightarrow>
   connectTool args None None (Some c) =
     (Inr [Lit ''Connected to TWS at '', Lit (cfg_host cfg), Lit '':'', Num (cfg_port cfg)],
      Some \<lparr>config = cfg, connected = True, apiConnectCalls = 1, apiDisconnectCalls = 0,
            apiHandlers = [E_error, E_connected, E_disconnected]\<rparr>,
      Some (c\<lparr>apiDisconnectCalls := apiDisconnectCalls c + 1, connected := False\<rparr>))"
  by (simp add: connectTool_def connect_def connect_start_def connect_resume_def
      newTWSConnection_def connectedText_def disconnect_def)

lemma connectTool_replaces_closed:
  "parseConfig args = Inr cfg \<Longrightarrow> \<not> connected c \<Longrightarrow>
   connectTool args answer None (Some c) =
     (Inr [Lit ''Connected to TWS at '', Lit (cfg_host cfg), Lit '':'', Num (cfg_port cfg)],
      Some \<lparr>config = cfg, connected = True, apiConnectCalls = 1, apiDisconnectCalls = 0,
            apiHandlers = [E_error, E_connected, E_disconnected]\<rparr>,
      Some c)"
  by (simp add: connectTool_def connect_def connect_start_def connect_resume_def
      newTWSConnection_def connectedText_def disconnect_def)

lemma connectTool_disconnect_throws:
  "parseConfig args = Inr cfg \<Longrightarrow> connected c \<Longrightarrow>
   connectTool args (Some thrown) transport (Some c) =
     (Inl (ToolError InternalError [Lit ''Failed to connect: '', Lit thrown]),
      Some (c\<lparr>apiDisconnectCalls := apiDisconnectCalls c + 1\<rparr>), None)"
  by (simp add: connectTool_def disconnect_def failedToConnect_def)

lemma connectTool_rejected:
  "parseConfig args = Inr cfg \<Longrightarrow>
   connectTool args answer (Some msg) None =
     (Inl (ToolError InternalError
             [Lit ''Failed to connect: '', ErrorText (Error (''Failed to connect to TWS: '' @ msg))]),
      Some \<lparr>config = cfg, connected = False, apiConnectCalls = 1, apiDisconnectCalls = 0,
            apiHandlers = []\<rparr>,
      None)"
  by (simp add: connectTool_def connect_def connect_start_def connect_resume_def
      newTWSConnection_def failedToConnect_def)

lemma connectTool_replaces_rejected:
  "parseConfig args = Inr cfg \<Longrightarrow> connected c \<Longrightarrow>
   connectTool args None (Some msg) (Some c) =
     (Inl (ToolError InternalError
             [Lit ''Failed to connect: '', ErrorText (Error (''Failed to connect to TWS: '' @ msg))]),
      Some \<lparr>config = cfg, connected = False, apiConnectCalls = 1, apiDisconnectCalls = 0,
            apiHandlers = []\<rparr>,
      Some (c\<lparr>apiDisconnectCalls := apiDisconnectCalls c + 1, connected := False\<rparr>))"
  by (simp add: connectTool_def connect_def connect_start_def connect_resume_def
      newTWSConnection_def failedToConnect_def disconnect_def)

lemma connectTool_replaces_closed_rejected:
  "parseConfig args = Inr cfg \<Longrightarrow> \<not> connected c \<Longrightarrow>
   connectTool args answer (Some msg) (Some c) =
     (Inl (ToolError InternalError
             [Lit ''Failed to connect: '', ErrorText (Error (''Failed to connect to TWS: '' @ msg))]),
      Some \<lparr>config = cfg, connected = False, apiConnectCalls = 1, apiDisconnectCalls = 0,
            apiHandlers = []\<rparr>,
      Some c)"
  by (simp add: connectTool_def connect_def connect_start_def connect_resume_def
      newTWSConnection_def failedToConnect_def disconnect_def)

lemma connectTool_fails_iff:
  "(\<exists>e. fst (connectTool args answer transport connection) = Inl e) \<longleftrightarrow>
     (\<exists>issues. parseConfig args = Inl issues)
     \<or> (\<exists>c. connection = Some c \<and> connected c \<and> answer \<noteq> None)
     \<or> transport \<noteq> None"
proof (cases "parseConfig args")
  case (Inl issues)
  then show ?thesis by (simp add: connectTool_def)
next
  case (Inr cfg)
  have ok: "connect None (newTWSConnection cfg) =
      (Inr (), (newTWSConnection cfg)\<lparr>apiConnectCalls := 1, connected := True,
                 apiHandlers := [E_error, E_connected, E_disconnected]\<rparr>)"
    by (simp add: connect_def connect_start_def connect_resume_def newTWSConnection_def)
  have rejected: "connect (Some msg) (newTWSConnection cfg) =
      (Inl (Error (''Failed to connect to TWS: '' @ msg)),
       (newTWSConnection cfg)\<lparr>apiConnectCalls := 1, connected := False\<rparr>)" for msg
    by (simp add: connect_def connect_start_def connect_resume_def newTWSConnection_def)
  show ?thesis
    by (cases connection; cases answer; cases transport)
      (auto simp add: Inr connectTool_def ok rejected disconnect_def)
qed

lemma disconnect_connected:
  "connected c \<Longrightarrow>
   disconnect None c =
     (Inr (), c\<lparr>apiDisconnectCalls := apiDisconnectCalls c + 1, connected := False\<rparr>)"
  by (simp add: disconnect_def)

text \<open>
  C9, amended. \<^verbatim>\<open>TWSConnection.connect\<close> on an established connection returns normally
  without calling the transport and changes nothing, so there is no second session; on a
  connection that is not (yet) marked connected it calls the transport, also when an
  earlier call is still awaiting it; it fails exactly when it is not marked connected and
  the transport rejects. The \<^verbatim>\<open>connect\<close> tool, given arguments that the schema accepts,
  disconnects an established connection, which is left with \<^verbatim>\<open>connected\<close> false and one
  more call of \<^verbatim>\<open>api.disconnect\<close>, and replaces it by a new one with the parsed
  configuration, answering \<^verbatim>\<open>Connected to TWS at host:port\<close>; a connection that is not
  marked connected is replaced untouched. The tool fails, with
  \<^verbatim>\<open>McpError(InternalError, `Failed to connect: ...`)\<close>, exactly when the arguments do not
  parse (the variable is then left alone), when disconnecting the established connection
  throws (the variable then still holds it), or when the transport rejects (the variable
  then holds the new connection, not connected). A call without arguments connects with
  the defaults; a call with the port given as the text \<^verbatim>\<open>'7497'\<close> fails.
\<close>

theorem connect_twice_amended:
  "(connected c \<longrightarrow> connect transport c = (Inr (), c))
   \<and> (\<not> connected c \<longrightarrow>
        connect None c =
          (Inr (), c\<lparr>apiConnectCalls := apiConnectCalls c + 1, connected := True,
                     apiHandlers := apiHandlers c @ [E_error, E_connected, E_disconnected]\<rparr>))
   \<and> (\<not> connected c \<longrightarrow>
        connect (Some msg) c =
          (Inl (Error (''Failed to connect to TWS: '' @ msg)),
           c\<lparr>apiConnectCalls := apiConnectCalls c + 1, connected := False\<rparr>))
   \<and> (\<not> connected c \<longrightarrow>
        connect_start (snd (connect_start c)) =
          (AwaitingTransport, c\<lparr>apiConnectCalls := apiConnectCalls c + 2\<rparr>))
   \<and> ((\<exists>e. fst (connect transport c) = Inl e) \<longleftrightarrow> \<not> connected c \<and> transport \<noteq> None)
   \<and> (connected c \<longrightarrow>
        disconnect None c =
          (Inr (), c\<lparr>apiDisconnectCalls := apiDisconnectCalls c + 1, connected := False\<rparr>))
   \<and> (parseConfig args = Inr cfg \<longrightarrow>
        connectTool args answer None None =
          (Inr [Lit ''Connected to TWS at '', Lit (cfg_host cfg), Lit '':'', Num (cfg_port cfg)],
           Some \<lparr>config = cfg, connected = True, apiConnectCalls = 1, apiDisconnectCalls = 0,
                 apiHandlers = [E_error, E_connected, E_disconnected]\<rparr>,
           None))
   \<and> (parseConfig args = Inr cfg \<and> connected c \<longrightarrow>
        connectTool args None None (Some c) =
          (Inr [Lit ''Connected to TWS at '', Lit (cfg_host cfg), Lit '':'', Num (cfg_port cfg)],
           Some \<lparr>config = cfg, connected = True, apiConnectCalls = 1, apiDisconnectCalls = 0,
                 apiHandlers = [E_error, E_connected, E_disconnected]\<rparr>,
           Some (c\<lparr>apiDisconnectCalls := apiDisconnectCalls c + 1, connected := False\<rparr>)))
   \<and> (parseConfig args = Inr cfg \<and> \<not> connected c \<longrightarrow>
        connectTool args answer None (Some c) =
          (Inr [Lit ''Connected to TWS at '', Lit (cfg_host cfg), Lit '':'', Num (cfg_port cfg)],
           Some \<lparr>config = cfg, connected = True, apiConnectCalls = 1, apiDisconnectCalls = 0,
                 apiHandlers = [E_error, E_connected, E_disconnected]\<rparr>,
           Some c))
   \<and> (parseConfig args = Inr cfg \<and> connected c \<longrightarrow>
        connectTool args (Some thrown) transport (Some c) =
          (Inl (ToolError InternalError [Lit ''Failed to connect: '', Lit thrown]),
           Some (c\<lparr>apiDisconnectCalls := apiDisconnectCalls c + 1\<rparr>), None))
   \<and> (parseConfig args = Inr cfg \<longrightarrow>
        connectTool args answer (Some msg) None =
          (Inl (ToolError InternalError
                  [Lit ''Failed to connect: '',
                   ErrorText (Error (''Failed to connect to TWS: '' @ msg))]),
           Some \<lparr>config = cfg, connected = False, apiConnectCalls = 1, apiDisconnectCalls = 0,
                 apiHandlers = []\<rparr>,
           None))
   \<and> (parseConfig args = Inr cfg \<and> connected c \<longrightarrow>
        connectTool args None (Some msg) (Some c) =
          (Inl (ToolError InternalError
                  [Lit ''Failed to connect: '',
                   ErrorText (Error (''Failed to connect to TWS: '' @ msg))]),
           Some \<lparr>config = cfg, connected = False, apiConnectCalls = 1, apiDisconnectCalls = 0,
                 apiHandlers = []\<rparr>,
           Some (c\<lparr>apiDisconnectCalls := apiDisconnectCalls c + 1, connected := False\<rparr>)))
   \<and> (parseConfig args = Inr cfg \<and> \<not> connected c \<longrightarrow>
        connectTool args answer (Some msg) (Some c) =
          (Inl (ToolError InternalError
                  [Lit ''Failed to connect: '',
                   ErrorText (Error (''Failed to connect to TWS: '' @ msg))]),
           Some \<lparr>config = cfg, connected = False, apiConnectCalls = 1, apiDisconnectCalls = 0,
                 apiHandlers = []\<rparr>,
           Some c))
   \<and> (parseConfig bad = Inl issues \<longrightarrow>
        connectTool bad answer transport connection =
          (Inl (ToolError InternalError [Lit ''Failed to connect: '', ZodText issues]),
           connection, None))
   \<and> ((\<exists>e. fst (connectTool given answer transport connection) = Inl e) \<longleftrightarrow>
         (\<exists>issues. parseConfig given = Inl issues)
         \<or> (\<exists>c. connection = Some c \<and> connected c \<and> answer \<noteq> None)
         \<or> transport \<noteq> None)
   \<and> parseConfig (Some noArgs) = Inr defaultConfig
   \<and> parseConfig (Some (noArgs\<lparr>arg_port := JsString ''7497''\<rparr>)) = Inl [''port'']
   \<and> parseConfig None = Inl [[]]
   \<and> connectTool (Some (noArgs\<lparr>arg_port := JsString ''7497''\<rparr>)) None None connection =
        (Inl (ToolError InternalError [Lit ''Failed to connect: '', ZodText [''port'']]),
         connection, None)"
proof -
  have textPort:
    "connectTool (Some (noArgs\<lparr>arg_port := JsString ''7497''\<rparr>)) None None connection =
        (Inl (ToolError InternalError [Lit ''Failed to connect: '', ZodText [''port'']]),
         connection, None)"
    using parseConfig_port_text by (rule connectTool_unparsed)
  have root: "parseConfig None = Inl [[]]"
    by (simp add: parseConfig_def)
  show ?thesis
    using connect_connected[of c transport] connect_fresh_ok[of c] connect_fresh_rejected[of c msg]
      connect_in_flight[of c] connect_fails_iff[of transport c] disconnect_connected[of c]
      connectTool_first[of args cfg answer]
      connectTool_replaces[of args cfg c] connectTool_replaces_closed[of args cfg c answer]
      connectTool_disconnect_throws[of args cfg c thrown transport]
      connectTool_rejected[of args cfg answer msg]
      connectTool_replaces_rejected[of args cfg c msg]
      connectTool_replaces_closed_rejected[of args cfg c answer msg]
      connectTool_unparsed[of bad issues answer transport connection]
      connectTool_fails_iff[of given answer transport connection]
      parseConfig_noArgs parseConfig_port_text root textPort
    by blast
qed

text \<open>
  The theorem at an established connection and at a new one, for a call without
  arguments and a call whose port is a text.
\<close>

theorem connect_twice_amended_witness:
  "connect None establishedConnection = (Inr (), establishedConnection)
   \<and> connect None (newTWSConnection defaultConfig) = (Inr (), establishedConnection)
   \<and> connect (Some ''ECONNREFUSED'') (newTWSConnection defaultConfig) =
       (Inl (Error ''Failed to connect to TWS: ECONNREFUSED''),
        (newTWSConnection defaultConfig)\<lparr>apiConnectCalls := 1\<rparr>)
   \<and> connect_start (snd (connect_start (newTWSConnection defaultConfig))) =
       (AwaitingTransport, (newTWSConnection defaultConfig)\<lparr>apiConnectCalls := 2\<rparr>)
   \<and> disconnect None establishedConnection =
       (Inr (), establishedConnection\<lparr>apiDisconnectCalls := 1, connected := False\<rparr>)
   \<and> connectTool (Some noArgs) None None None =
       (Inr [Lit ''Connected to TWS at '', Lit ''127.0.0.1'', Lit '':'', Num 7497],
        Some establishedConnection, None)
   \<and> connectTool (Some noArgs) None None (Some establishedConnection) =
       (Inr [Lit ''Connected to TWS at '', Lit ''127.0.0.1'', Lit '':'', Num 7497],
        Some establishedConnection,
        Some (establishedConnection\<lparr>apiDisconnectCalls := 1, connected := False\<rparr>))
   \<and> connectTool (Some noArgs) None None (Some (newTWSConnection defaultConfig)) =
       (Inr [Lit ''Connected to TWS at '', Lit ''127.0.0.1'', Lit '':'', Num 7497],
        Some establishedConnection, Some (newTWSConnection defaultConfig))
   \<and> connectTool (Some noArgs) (Some ''socket closed'') None (Some establishedConnection) =
       (Inl (ToolError InternalError [Lit ''Failed to connect: '', Lit ''socket closed'']),
        Some (establishedConnection\<lparr>apiDisconnectCalls := 1\<rparr>), None)
   \<and> connectTool (Some noArgs) None (Some ''ECONNREFUSED'') None =
       (Inl (ToolError InternalError
               [Lit ''Failed to connect: '',
                ErrorText (Error ''Failed to connect to TWS: ECONNREFUSED'')]),
        Some ((newTWSConnection defaultConfig)\<lparr>apiConnectCalls := 1\<rparr>), None)
   \<and> connectTool (Some noArgs) None (Some ''ECONNREFUSED'') (Some establishedConnection) =
       (Inl (ToolError InternalError
               [Lit ''Failed to connect: '',
                ErrorText (Error ''Failed to connect to TWS: ECONNREFUSED'')]),
        Some ((newTWSConnection defaultConfig)\<lparr>apiConnectCalls := 1\<rparr>),
        Some (establishedConnection\<lparr>apiDisconnectCalls := 1, connected := False\<rparr>))
   \<and> connectTool (Some noArgs) None (Some ''ECONNREFUSED'')
         (Some (newTWSConnection defaultConfig)) =
       (Inl (ToolError InternalError
               [Lit ''Failed to connect: '',
                ErrorText (Error ''Failed to connect to TWS: ECONNREFUSED'')]),
        Some ((newTWSConnection defaultConfig)\<lparr>apiConnectCalls := 1\<rparr>),
        Some (newTWSConnection defaultConfig))
   \<and> connectTool (Some (noArgs\<lparr>arg_port := JsString ''7497''\<rparr>)) None None
         (Some establishedConnection) =
       (Inl (ToolError InternalError [Lit ''Failed to connect: '', ZodText [''port'']]),
        Some establishedConnection, None)"
  using connect_twice_amended[where c = establishedConnection and transport = None
      and msg = "''ECONNREFUSED''" and args = "Some noArgs" and cfg = defaultConfig
      and answer = None and thrown = "''socket closed''"
      and bad = "Some (noArgs\<lparr>arg_port := JsString ''7497''\<rparr>)" and issues = "[''port'']"
      and connection = "Some establishedConnection" and given = "Some noArgs"]
    connect_twice_amended[where c = "newTWSConnection defaultConfig" and transport = None
      and msg = "''ECONNREFUSED''" and args = "Some noArgs" and cfg = defaultConfig
      and answer = None and thrown = "''socket closed''"
      and bad = "Some (noArgs\<lparr>arg_port := JsString ''7497''\<rparr>)" and issues = "[''port'']"
      and connection = "Some establishedConnection" and given = "Some noArgs"]
  by (simp add: establishedConnection_def newTWSConnection_def defaultConfig_def)

section \<open>Correlated requests of the modular server: option Greeks\<close>

text \<open>
  A promise records every call of \<^verbatim>\<open>resolve\<close> and \<^verbatim>\<open>reject\<close> in order; the promise
  itself takes the first. A timer is armed by \<^verbatim>\<open>setTimeout\<close>, disarmed by
  \<^verbatim>\<open>clearTimeout\<close> and by firing, and fires only while armed. An event reaches a handler
  only while the handler is bound on the \<^verbatim>\<open>IBApi\<close> emitter.
\<close>

datatype 'a outcome = Resolved 'a | Rejected error

subsection \<open>\<^verbatim>\<open>OptionsTools.getOptionGreeks\<close>\<close>

text \<open>The arguments of a \<^verbatim>\<open>tickOptionComputation\<close> event.\<close>

record option_computation =
  c_tickerId :: int
  c_tickType :: nat
  c_tickAttrib :: int
  c_impliedVol :: real
  c_delta :: real
  c_optPrice :: real
  c_pvDividend :: real
  c_gamma :: real
  c_vega :: real
  c_theta :: real
  c_undPrice :: real













subsection \<open>What the deadline does\<close>







section \<open>Snapshot lists: \<^verbatim>\<open>getPositions\<close>\<close>



subsection \<open>\<^verbatim>\<open>PortfolioTools.getPositions\<close> of the modular server\<close>







section \<open>The listener registry of the secure server\<close>

text \<open>
  The module variables \<^verbatim>\<open>ib\<close> and \<^verbatim>\<open>eventListenerCleanup\<close>. Of \<^verbatim>\<open>ib\<close> the model keeps
  whether it is set and the emitter's listener table, in registration order. A handler is
  a value of the type parameter. The cleanup map is keyed by the text
  \<^verbatim>\<open>`${eventName}-${reqId || 'global'}`\<close>, that is by the event name and the request id, where a
  missing id and the id 0 both give \<^verbatim>\<open>'global'\<close> (\<open>None\<close>); the closure stored under a key
  removes one handler from one event.
\<close>

record 'h registry =
  ibSet :: bool
  listeners :: "(event_name \<times> 'h) list"
  eventListenerCleanup :: "event_name \<times> int option \<Rightarrow> (event_name \<times> 'h) option"

definition cleanupKey :: "event_name \<Rightarrow> int option \<Rightarrow> event_name \<times> int option" where
  "cleanupKey eventName reqId = (eventName, if reqId = Some 0 then None else reqId)"

text \<open>\<^verbatim>\<open>ib.removeListener(eventName, handler)\<close>; no handler is ever bound twice.\<close>

definition removeListener :: "event_name \<Rightarrow> 'h \<Rightarrow> (event_name \<times> 'h) list \<Rightarrow> (event_name \<times> 'h) list" where
  "removeListener eventName handler ls = filter (\<lambda>l. l \<noteq> (eventName, handler)) ls"

definition addListener :: "event_name \<Rightarrow> 'h \<Rightarrow> int option \<Rightarrow> 'h registry \<Rightarrow> 'h registry" where
  "addListener eventName handler reqId r =
     (if \<not> ibSet r then r
      else r\<lparr>listeners := listeners r @ [(eventName, handler)],
             eventListenerCleanup :=
               (eventListenerCleanup r)(cleanupKey eventName reqId \<mapsto> (eventName, handler))\<rparr>)"

definition cleanupListener :: "int option \<Rightarrow> 'h registry \<Rightarrow> event_name \<Rightarrow> 'h registry" where
  "cleanupListener reqId r eventName =
     (case eventListenerCleanup r (cleanupKey eventName reqId) of
        None \<Rightarrow> r
      | Some (ev, h) \<Rightarrow>
          r\<lparr>listeners := removeListener ev h (listeners r),
            eventListenerCleanup := (eventListenerCleanup r)(cleanupKey eventName reqId := None)\<rparr>)"

definition cleanupListeners :: "event_name list \<Rightarrow> int option \<Rightarrow> 'h registry \<Rightarrow> 'h registry" where
  "cleanupListeners eventNames reqId r =
     (if \<not> ibSet r then r else foldl (cleanupListener reqId) r eventNames)"

text \<open>
  The handlers that \<^verbatim>\<open>emit\<close> calls for an event: those bound to it when the emit
  starts, in registration order.
\<close>

definition listenersOf :: "event_name \<Rightarrow> (event_name \<times> 'h) list \<Rightarrow> 'h list" where
  "listenersOf eventName ls = map snd (filter (\<lambda>l. fst l = eventName) ls)"

definition connectedRegistry :: "'h registry" where
  "connectedRegistry = \<lparr>ibSet = True, listeners = [], eventListenerCleanup = (\<lambda>k. None)\<rparr>"

text \<open>
  The text that \<^verbatim>\<open>x.toFixed(d)\<close> returns is kept as the pair of \<open>d\<close> and \<open>x\<close>, and
  the text that \<^verbatim>\<open>(parseFloat(a) - parseFloat(b)).toFixed(d)\<close> returns as \<open>d\<close> with the
  two texts \<open>a\<close> and \<open>b\<close>; their digits are not computed.
\<close>

datatype fixed = ToFixed nat real | DifferenceToFixed nat fixed fixed

subsection \<open>\<^verbatim>\<open>getPositions\<close> of the secure server\<close>











subsection \<open>Rows followed by the end marker\<close>









section \<open>Keyed summaries: \<^verbatim>\<open>PortfolioTools.getAccountSummary\<close>\<close>

text \<open>
  The emitter of the modular server is shared by all calls in flight. A handler is named
  by the call that bound it (the index of its closure). \<^verbatim>\<open>emit\<close> calls the handlers
  that were bound when it started, in registration order;
  \<^verbatim>\<open>removeAllListeners(eventName)\<close> unbinds the handlers of every call.
\<close>

definition removeAllListeners :: "event_name \<Rightarrow> (event_name \<times> 'h) list \<Rightarrow> (event_name \<times> 'h) list" where
  "removeAllListeners eventName ls = filter (\<lambda>l. fst l \<noteq> eventName) ls"

record summary_value =
  sv_account :: string
  sv_tag :: string
  sv_value :: string
  sv_currency :: string

datatype summary_handler = SummaryHandler nat | SummaryEndHandler nat

text \<open>
  The closure of one call: \<^verbatim>\<open>reqId\<close> (a random number), the object \<^verbatim>\<open>summary\<close> as
  a map from tag to entry, the timer, and the calls of \<^verbatim>\<open>resolve\<close>/\<^verbatim>\<open>reject\<close>.
\<close>

record summary_call =
  as_reqId :: int
  as_summary :: "string \<Rightarrow> summary_value option"
  as_timeout :: bool
  as_settled :: "(string \<Rightarrow> summary_value option) outcome list"

record summary_server =
  as_api :: "(event_name \<times> summary_handler) list"
  as_calls :: "summary_call list"
  as_cancelAccountSummary :: "int list"

datatype summary_event =
    GetAccountSummary int
  | AccountSummary int string string string string
  | AccountSummaryEnd int
  | SummaryTimeoutFires nat

definition as_idle :: summary_server where
  "as_idle = \<lparr>as_api = [], as_calls = [], as_cancelAccountSummary = []\<rparr>"

definition as_update :: "nat \<Rightarrow> (summary_call \<Rightarrow> summary_call) \<Rightarrow> summary_server \<Rightarrow> summary_server" where
  "as_update k f s =
     (if k < length (as_calls s) then s\<lparr>as_calls := (as_calls s)[k := f (as_calls s ! k)]\<rparr> else s)"

definition as_removeAll :: "summary_server \<Rightarrow> summary_server" where
  "as_removeAll s =
     s\<lparr>as_api := removeAllListeners E_accountSummaryEnd (removeAllListeners E_accountSummary (as_api s))\<rparr>"

text \<open>
  Neither handler compares the \<^verbatim>\<open>reqId\<close> argument of the event with the \<^verbatim>\<open>reqId\<close> of
  its call: the parameter shadows the variable. The end handler cancels the event's id.
\<close>

fun as_handle :: "summary_event \<Rightarrow> summary_server \<Rightarrow> summary_handler \<Rightarrow> summary_server" where
  "as_handle (AccountSummary reqId acct tag val currency) s (SummaryHandler k) =
     as_update k (\<lambda>c. c\<lparr>as_summary := (as_summary c)
        (tag \<mapsto> \<lparr>sv_account = acct, sv_tag = tag, sv_value = val, sv_currency = currency\<rparr>)\<rparr>) s"
| "as_handle (AccountSummaryEnd reqId) s (SummaryEndHandler k) =
     as_update k (\<lambda>c. c\<lparr>as_settled := as_settled c @ [Resolved (as_summary c)]\<rparr>)
       ((as_removeAll (as_update k (\<lambda>c. c\<lparr>as_timeout := False\<rparr>) s))
          \<lparr>as_cancelAccountSummary := as_cancelAccountSummary s @ [reqId]\<rparr>)"
| "as_handle ev s h = s"

fun as_step :: "summary_server \<Rightarrow> summary_event \<Rightarrow> summary_server" where
  "as_step s (GetAccountSummary reqId) =
     s\<lparr>as_calls := as_calls s @
          [\<lparr>as_reqId = reqId, as_summary = (\<lambda>t. None), as_timeout = True, as_settled = []\<rparr>],
       as_api := as_api s @
          [(E_accountSummary, SummaryHandler (length (as_calls s))),
           (E_accountSummaryEnd, SummaryEndHandler (length (as_calls s)))]\<rparr>"
| "as_step s (AccountSummary reqId acct tag val currency) =
     foldl (as_handle (AccountSummary reqId acct tag val currency)) s
       (listenersOf E_accountSummary (as_api s))"
| "as_step s (AccountSummaryEnd reqId) =
     foldl (as_handle (AccountSummaryEnd reqId)) s (listenersOf E_accountSummaryEnd (as_api s))"
| "as_step s (SummaryTimeoutFires k) =
     (if k < length (as_calls s) \<and> as_timeout (as_calls s ! k)
      then as_update k
             (\<lambda>c. c\<lparr>as_settled := as_settled c @
                [Rejected (Error ''Timeout waiting for account summary'')]\<rparr>)
             (as_removeAll (as_update k (\<lambda>c. c\<lparr>as_timeout := False\<rparr>) s))
      else s)"

definition as_run :: "summary_event list \<Rightarrow> summary_server" where
  "as_run evs = foldl as_step as_idle evs"

text \<open>What call \<open>k\<close> resolved with, looked up at a tag.\<close>

definition as_resolvedAt :: "summary_server \<Rightarrow> nat \<Rightarrow> string \<Rightarrow> summary_value option" where
  "as_resolvedAt s k tag =
     (case as_settled (as_calls s ! k) of
        Resolved m # rest \<Rightarrow> m tag
      | _ \<Rightarrow> None)"

text \<open>
  C5 on this code. Two calls are in flight, with request ids 1 and 2. One
  \<^verbatim>\<open>accountSummary\<close> event tagged with id 2 arrives, then the end event of id 1. The
  call with id 1 resolves with the pair of the event that was tagged 2.
\<close>

theorem summary_leak_between_requests:
  "as_reqId (as_calls (as_run
       [GetAccountSummary 1, GetAccountSummary 2,
        AccountSummary 2 ''DU222'' ''NetLiquidation'' ''5000'' ''USD'',
        AccountSummaryEnd 1]) ! 0) = 1
   \<and> as_resolvedAt (as_run
       [GetAccountSummary 1, GetAccountSummary 2,
        AccountSummary 2 ''DU222'' ''NetLiquidation'' ''5000'' ''USD'',
        AccountSummaryEnd 1]) 0 ''NetLiquidation'' =
     Some \<lparr>sv_account = ''DU222'', sv_tag = ''NetLiquidation'', sv_value = ''5000'',
           sv_currency = ''USD''\<rparr>"
  by (simp add: as_run_def as_idle_def listenersOf_def as_update_def as_removeAll_def
      removeAllListeners_def as_resolvedAt_def)

subsection \<open>\<^verbatim>\<open>getAccountSummary\<close> of the secure server compares the ids\<close>

text \<open>
  The entry stored under a tag: \<^verbatim>\<open>parseFloat(value).toFixed(2)\<close>, the currency and the
  masked account. The event's value is carried as the number that \<^verbatim>\<open>parseFloat\<close>
  reads from its text.
\<close>

record secure_summary_value =
  ssv_value :: fixed
  ssv_currency :: string
  ssv_account :: string

datatype secure_summary_handler = SecureSummaryHandler | SecureSummaryEndHandler

datatype secure_summary_event =
    SecureAccountSummary int string string real string
  | SecureAccountSummaryEnd int
  | SecureSummaryTimeoutFires

text \<open>The registry together with the closure of one call.\<close>

record secure_summary =
  sa_registry :: "secure_summary_handler registry"
  sa_reqId :: int
  sa_summary :: "string \<Rightarrow> secure_summary_value option"
  sa_timeout :: bool
  sa_cancelAccountSummary :: "int list"
  sa_settled :: "(string \<Rightarrow> secure_summary_value option) outcome list"

definition sa_getAccountSummary :: "int \<Rightarrow> secure_summary" where
  "sa_getAccountSummary reqId =
     \<lparr>sa_registry =
        addListener E_accountSummaryEnd SecureSummaryEndHandler (Some reqId)
          (addListener E_accountSummary SecureSummaryHandler (Some reqId) connectedRegistry),
      sa_reqId = reqId, sa_summary = (\<lambda>t. None), sa_timeout = True,
      sa_cancelAccountSummary = [], sa_settled = []\<rparr>"

definition sa_finish :: "secure_summary \<Rightarrow> secure_summary" where
  "sa_finish s =
     s\<lparr>sa_registry :=
         cleanupListeners [E_accountSummary, E_accountSummaryEnd] (Some (sa_reqId s)) (sa_registry s),
       sa_cancelAccountSummary := sa_cancelAccountSummary s @ [sa_reqId s],
       sa_settled := sa_settled s @ [Resolved (sa_summary s)]\<rparr>"

fun sa_handle ::
  "secure_summary_event \<Rightarrow> secure_summary \<Rightarrow> secure_summary_handler \<Rightarrow> secure_summary" where
  "sa_handle (SecureAccountSummary id' acct tag val currency) s SecureSummaryHandler =
     (if id' = sa_reqId s
      then s\<lparr>sa_summary := (sa_summary s)
             (tag \<mapsto> \<lparr>ssv_value = ToFixed 2 val, ssv_currency = currency,
                       ssv_account = take 3 acct @ ''***''\<rparr>)\<rparr>
      else s)"
| "sa_handle (SecureAccountSummaryEnd id') s SecureSummaryEndHandler =
     (if id' = sa_reqId s then sa_finish (s\<lparr>sa_timeout := False\<rparr>) else s)"
| "sa_handle ev s h = s"

fun sa_step :: "secure_summary \<Rightarrow> secure_summary_event \<Rightarrow> secure_summary" where
  "sa_step s (SecureAccountSummary id' acct tag val currency) =
     foldl (sa_handle (SecureAccountSummary id' acct tag val currency)) s
       (listenersOf E_accountSummary (listeners (sa_registry s)))"
| "sa_step s (SecureAccountSummaryEnd id') =
     foldl (sa_handle (SecureAccountSummaryEnd id')) s
       (listenersOf E_accountSummaryEnd (listeners (sa_registry s)))"
| "sa_step s SecureSummaryTimeoutFires =
     (if sa_timeout s then sa_finish (s\<lparr>sa_timeout := False\<rparr>) else s)"

definition sa_run :: "int \<Rightarrow> secure_summary_event list \<Rightarrow> secure_summary" where
  "sa_run reqId evs = foldl sa_step (sa_getAccountSummary reqId) evs"

text \<open>Whether an event concerns the request with the given id; the timer is its own.\<close>

fun sa_taggedWith :: "int \<Rightarrow> secure_summary_event \<Rightarrow> bool" where
  "sa_taggedWith reqId (SecureAccountSummary id' acct tag val currency) = (id' = reqId)"
| "sa_taggedWith reqId (SecureAccountSummaryEnd id') = (id' = reqId)"
| "sa_taggedWith reqId SecureSummaryTimeoutFires = True"

lemma sa_handle_foreign:
  "\<not> sa_taggedWith (sa_reqId s) ev \<Longrightarrow> sa_handle ev s h = s"
  by (cases "(ev, s, h)" rule: sa_handle.cases) auto

lemma sa_emit_foreign:
  "\<not> sa_taggedWith (sa_reqId s) ev \<Longrightarrow> foldl (sa_handle ev) s hs = s"
  by (induction hs) (simp_all add: sa_handle_foreign)

lemma sa_step_foreign:
  "\<not> sa_taggedWith (sa_reqId s) ev \<Longrightarrow> sa_step s ev = s"
  by (cases ev) (simp_all add: sa_emit_foreign)

lemma sa_handle_reqId [simp]: "sa_reqId (sa_handle ev s h) = sa_reqId s"
  by (cases "(ev, s, h)" rule: sa_handle.cases) (auto simp: sa_finish_def)

lemma sa_emit_reqId [simp]: "sa_reqId (foldl (sa_handle ev) s hs) = sa_reqId s"
  by (induction hs arbitrary: s) simp_all

lemma sa_step_reqId [simp]: "sa_reqId (sa_step s ev) = sa_reqId s"
  by (cases ev) (simp_all add: sa_finish_def)

lemma sa_foldl_own_events:
  "foldl sa_step s evs = foldl sa_step s (filter (sa_taggedWith (sa_reqId s)) evs)"
proof (induction evs arbitrary: s)
  case Nil
  then show ?case by simp
next
  case (Cons ev evs)
  show ?case
  proof (cases "sa_taggedWith (sa_reqId s) ev")
    case True
    then show ?thesis
      using Cons.IH[of "sa_step s ev"] by simp
  next
    case False
    then show ?thesis
      using Cons.IH[of s] by (simp add: sa_step_foreign)
  qed
qed

text \<open>
  In the secure server the events tagged with another request id change nothing of a
  call: the call ends in the state it reaches on its own events alone.
\<close>

lemma secure_summary_isolated:
  "sa_run reqId evs = sa_run reqId (filter (sa_taggedWith reqId) evs)"
  using sa_foldl_own_events[of "sa_getAccountSummary reqId" evs]
  by (simp add: sa_run_def sa_getAccountSummary_def)

section \<open>Sub-requests of the enhanced server: \<^verbatim>\<open>getGreeksForPositions\<close>\<close>

text \<open>
  One promise per position. Each binds its \<^verbatim>\<open>greeksHandler\<close> with \<^verbatim>\<open>ib.once\<close>, so
  the emitter unbinds it just before it calls it, whatever the id of the event. A handler
  is named by the index of its position. The closure of a position: its \<^verbatim>\<open>tickerId\<close>,
  the field \<^verbatim>\<open>pos.greeks\<close>, the timer and the number of \<^verbatim>\<open>resolve()\<close> calls.
\<close>

record position_call =
  gp_tickerId :: int
  gp_greeks :: "greeks option"
  gp_timeout :: bool
  gp_resolved :: nat

record greeks_server =
  gp_api :: "(event_name \<times> nat) list"
  gp_calls :: "position_call list"
  gp_cancelMktData :: "int list"

datatype gp_event = OptionComputation option_computation | PositionTimeoutFires nat

text \<open>The conversion of the markers: a Greek outside \<open>(-2, 2)\<close> becomes \<^verbatim>\<open>null\<close>.\<close>

definition ingestGreeks :: "option_computation \<Rightarrow> greeks" where
  "ingestGreeks c =
     \<lparr>delta = (if c_delta c > -2 \<and> c_delta c < 2 then Some (c_delta c) else None),
      gamma = (if c_gamma c > -2 \<and> c_gamma c < 2 then Some (c_gamma c) else None),
      vega = (if c_vega c > -2 \<and> c_vega c < 2 then Some (c_vega c) else None),
      theta = (if c_theta c > -2 \<and> c_theta c < 2 then Some (c_theta c) else None),
      impliedVol = (if c_impliedVol c > 0 then Some (c_impliedVol c) else None),
      underlyingPrice = (if c_undPrice c > 0 then Some (c_undPrice c) else None)\<rparr>"

text \<open>
  \<^verbatim>\<open>getGreeksForPositions\<close> up to its first \<^verbatim>\<open>await\<close>, given the ids that
  \<^verbatim>\<open>getNextReqId\<close> returned for the positions.
\<close>

definition getGreeksForPositions :: "int list \<Rightarrow> greeks_server" where
  "getGreeksForPositions tickerIds =
     \<lparr>gp_api = map (\<lambda>k. (E_tickOptionComputation, k)) [0..<length tickerIds],
      gp_calls = map (\<lambda>t. \<lparr>gp_tickerId = t, gp_greeks = None, gp_timeout = True, gp_resolved = 0\<rparr>)
                   tickerIds,
      gp_cancelMktData = []\<rparr>"

definition gp_update :: "nat \<Rightarrow> (position_call \<Rightarrow> position_call) \<Rightarrow> greeks_server \<Rightarrow> greeks_server" where
  "gp_update k f s =
     (if k < length (gp_calls s) then s\<lparr>gp_calls := (gp_calls s)[k := f (gp_calls s ! k)]\<rparr> else s)"

definition greeksHandler :: "option_computation \<Rightarrow> greeks_server \<Rightarrow> nat \<Rightarrow> greeks_server" where
  "greeksHandler c s k =
     (if k < length (gp_calls s) \<and> c_tickerId c = gp_tickerId (gp_calls s ! k)
      then (gp_update k
              (\<lambda>p. p\<lparr>gp_greeks := Some (ingestGreeks c), gp_timeout := False,
                      gp_resolved := gp_resolved p + 1\<rparr>) s)
             \<lparr>gp_cancelMktData := gp_cancelMktData s @ [gp_tickerId (gp_calls s ! k)]\<rparr>
      else s)"

definition gp_once :: "option_computation \<Rightarrow> greeks_server \<Rightarrow> nat \<Rightarrow> greeks_server" where
  "gp_once c s k =
     greeksHandler c (s\<lparr>gp_api := removeListener E_tickOptionComputation k (gp_api s)\<rparr>) k"

fun gp_step :: "greeks_server \<Rightarrow> gp_event \<Rightarrow> greeks_server" where
  "gp_step s (OptionComputation c) =
     foldl (gp_once c) s (listenersOf E_tickOptionComputation (gp_api s))"
| "gp_step s (PositionTimeoutFires k) =
     (if k < length (gp_calls s) \<and> gp_timeout (gp_calls s ! k)
      then (gp_update k (\<lambda>p. p\<lparr>gp_timeout := False, gp_resolved := gp_resolved p + 1\<rparr>) s)
             \<lparr>gp_cancelMktData := gp_cancelMktData s @ [gp_tickerId (gp_calls s ! k)]\<rparr>
      else s)"

definition gp_run :: "int list \<Rightarrow> gp_event list \<Rightarrow> greeks_server" where
  "gp_run tickerIds evs = foldl gp_step (getGreeksForPositions tickerIds) evs"

definition lateGreeks :: option_computation where
  "lateGreeks =
     \<lparr>c_tickerId = 10000, c_tickType = 13, c_tickAttrib = 0, c_impliedVol = 0.25, c_delta = 0.5,
      c_optPrice = 3, c_pvDividend = 0, c_gamma = 0.04, c_vega = 0.1, c_theta = -0.02,
      c_undPrice = 190\<rparr>"

text \<open>
  C2 on this code. One position with ticker id 10000, no event within 3000 ms: the timer
  fires and the sub-request resolves, but its handler is still bound to
  \<^verbatim>\<open>tickOptionComputation\<close>. An event for the id that arrives afterwards runs the
  handler: it writes \<^verbatim>\<open>pos.greeks\<close>, cancels the market data a second time and calls
  \<^verbatim>\<open>resolve\<close> a second time.
\<close>

theorem greeks_listener_left_bound:
  "gp_resolved (gp_calls (gp_run [10000] [PositionTimeoutFires 0]) ! 0) = 1
   \<and> listenersOf E_tickOptionComputation (gp_api (gp_run [10000] [PositionTimeoutFires 0])) = [0]
   \<and> gp_resolved (gp_calls (gp_run [10000]
        [PositionTimeoutFires 0, OptionComputation lateGreeks]) ! 0) = 2
   \<and> gp_cancelMktData (gp_run [10000]
        [PositionTimeoutFires 0, OptionComputation lateGreeks]) = [10000, 10000]
   \<and> gp_greeks (gp_calls (gp_run [10000]
        [PositionTimeoutFires 0, OptionComputation lateGreeks]) ! 0) = Some (ingestGreeks lateGreeks)"
  by (simp add: gp_run_def getGreeksForPositions_def gp_update_def listenersOf_def gp_once_def
      greeksHandler_def removeListener_def lateGreeks_def)

section \<open>Order lifecycle: \<^verbatim>\<open>OrderTools.placeOrder\<close> of the modular server\<close>

text \<open>
  The arguments of an \<^verbatim>\<open>orderStatus\<close> event that the handler stores, and of an
  \<^verbatim>\<open>openOrder\<close> event the order id and the id inside its \<^verbatim>\<open>order\<close> argument.
\<close>

record order_status =
  os_orderId :: int
  os_status :: string
  os_filled :: real
  os_remaining :: real
  os_avgFillPrice :: real
  os_permId :: int
  os_lastFillPrice :: real

record open_order =
  oo_orderId :: int
  oo_order_orderId :: int
  oo_orderState :: string

datatype order_handler = OpenOrderHandler nat | OrderStatusHandler nat

text \<open>
  The closure of one call: \<^verbatim>\<open>order.orderId\<close> (a random number), the variables
  \<^verbatim>\<open>orderDetails\<close> and \<^verbatim>\<open>orderStatus\<close>, the timer, and the calls of
  \<^verbatim>\<open>resolve\<close>/\<^verbatim>\<open>reject\<close>. The resolved value is shown by its fields \<^verbatim>\<open>status\<close> and
  \<^verbatim>\<open>details\<close>. The emitter is shared by all calls in flight.
\<close>

record place_call =
  po_orderId :: int
  po_orderDetails :: "open_order option"
  po_orderStatus :: "order_status option"
  po_timeout :: bool
  po_settled :: "(order_status \<times> open_order option) outcome list"

record order_server =
  po_api :: "(event_name \<times> order_handler) list"
  po_calls :: "place_call list"

datatype order_event =
    PlaceOrder int
  | OpenOrder open_order
  | OrderStatus order_status
  | OrderTimeoutFires nat

definition po_idle :: order_server where
  "po_idle = \<lparr>po_api = [], po_calls = []\<rparr>"

definition po_update :: "nat \<Rightarrow> (place_call \<Rightarrow> place_call) \<Rightarrow> order_server \<Rightarrow> order_server" where
  "po_update k f s =
     (if k < length (po_calls s) then s\<lparr>po_calls := (po_calls s)[k := f (po_calls s ! k)]\<rparr> else s)"

definition po_removeAll :: "order_server \<Rightarrow> order_server" where
  "po_removeAll s =
     s\<lparr>po_api := removeAllListeners E_orderStatus (removeAllListeners E_openOrder (po_api s))\<rparr>"

text \<open>
  In the \<^verbatim>\<open>openOrder\<close> handler the parameter \<^verbatim>\<open>order\<close> shadows the order of the call,
  so the test compares the event with itself. The \<^verbatim>\<open>orderStatus\<close> handler compares the
  event's id with the id of its call.
\<close>

fun po_handle :: "order_event \<Rightarrow> order_server \<Rightarrow> order_handler \<Rightarrow> order_server" where
  "po_handle (OpenOrder ev) s (OpenOrderHandler k) =
     (if oo_orderId ev = oo_order_orderId ev
      then po_update k (\<lambda>c. c\<lparr>po_orderDetails := Some ev\<rparr>) s
      else s)"
| "po_handle (OrderStatus ev) s (OrderStatusHandler k) =
     (if k < length (po_calls s) \<and> os_orderId ev = po_orderId (po_calls s ! k)
      then po_update k (\<lambda>c. c\<lparr>po_settled := po_settled c @ [Resolved (ev, po_orderDetails c)]\<rparr>)
             (po_removeAll
                (po_update k (\<lambda>c. c\<lparr>po_orderStatus := Some ev, po_timeout := False\<rparr>) s))
      else s)"
| "po_handle ev s h = s"

fun po_step :: "order_server \<Rightarrow> order_event \<Rightarrow> order_server" where
  "po_step s (PlaceOrder orderId) =
     s\<lparr>po_calls := po_calls s @
          [\<lparr>po_orderId = orderId, po_orderDetails = None, po_orderStatus = None,
            po_timeout = True, po_settled = []\<rparr>],
       po_api := po_api s @
          [(E_openOrder, OpenOrderHandler (length (po_calls s))),
           (E_orderStatus, OrderStatusHandler (length (po_calls s)))]\<rparr>"
| "po_step s (OpenOrder ev) =
     foldl (po_handle (OpenOrder ev)) s (listenersOf E_openOrder (po_api s))"
| "po_step s (OrderStatus ev) =
     foldl (po_handle (OrderStatus ev)) s (listenersOf E_orderStatus (po_api s))"
| "po_step s (OrderTimeoutFires k) =
     (if k < length (po_calls s) \<and> po_timeout (po_calls s ! k)
      then po_update k
             (\<lambda>c. c\<lparr>po_settled := po_settled c @
                [Rejected (Error ''Timeout waiting for order confirmation'')]\<rparr>)
             (po_removeAll (po_update k (\<lambda>c. c\<lparr>po_timeout := False\<rparr>) s))
      else s)"

definition po_run :: "order_event list \<Rightarrow> order_server" where
  "po_run evs = foldl po_step po_idle evs"

definition submitted :: "int \<Rightarrow> order_status" where
  "submitted orderId =
     \<lparr>os_orderId = orderId, os_status = ''Submitted'', os_filled = 0, os_remaining = 100,
      os_avgFillPrice = 0, os_permId = 1, os_lastFillPrice = 0\<rparr>"

text \<open>
  C1 on this code. Two calls of \<^verbatim>\<open>placeOrder\<close> are in flight, for the orders 11 and
  22, each with its \<^verbatim>\<open>orderStatus\<close> handler bound. The status event of order 11 resolves
  the first call, whose cleanup removes every \<^verbatim>\<open>openOrder\<close> and \<^verbatim>\<open>orderStatus\<close>
  listener of the emitter, those of the second call included. The status event of order
  22 then arrives before the deadline of the second call and reaches no handler: the call
  is still pending after it, its timer still armed, and its outcome is the rejection of
  the timeout. The same call alone is resolved by the same event.
\<close>

theorem second_order_status_lost:
  "po_orderId (po_calls (po_run [PlaceOrder 11, PlaceOrder 22]) ! 1) = 22
   \<and> po_api (po_run [PlaceOrder 11, PlaceOrder 22]) =
       [(E_openOrder, OpenOrderHandler 0), (E_orderStatus, OrderStatusHandler 0),
        (E_openOrder, OpenOrderHandler 1), (E_orderStatus, OrderStatusHandler 1)]
   \<and> po_settled (po_calls (po_run
        [PlaceOrder 11, PlaceOrder 22, OrderStatus (submitted 11)]) ! 0)
      = [Resolved (submitted 11, None)]
   \<and> po_api (po_run [PlaceOrder 11, PlaceOrder 22, OrderStatus (submitted 11)]) = []
   \<and> po_settled (po_calls (po_run
        [PlaceOrder 11, PlaceOrder 22, OrderStatus (submitted 11), OrderStatus (submitted 22)]) ! 1)
      = []
   \<and> po_timeout (po_calls (po_run
        [PlaceOrder 11, PlaceOrder 22, OrderStatus (submitted 11), OrderStatus (submitted 22)]) ! 1)
   \<and> po_settled (po_calls (po_run
        [PlaceOrder 11, PlaceOrder 22, OrderStatus (submitted 11), OrderStatus (submitted 22),
         OrderTimeoutFires 1]) ! 1)
      = [Rejected (Error ''Timeout waiting for order confirmation'')]
   \<and> po_settled (po_calls (po_run [PlaceOrder 22, OrderStatus (submitted 22)]) ! 0)
      = [Resolved (submitted 22, None)]"
  by (simp add: po_run_def po_idle_def listenersOf_def po_update_def po_removeAll_def
      removeAllListeners_def submitted_def)

section \<open>Scalar quotes: \<^verbatim>\<open>getQuote\<close> of the secure server\<close>

text \<open>
  The quote object, without its constant fields \<^verbatim>\<open>symbol\<close> and \<^verbatim>\<open>timestamp\<close>. A field
  that was never assigned is \<open>None\<close>. Prices are the texts that \<^verbatim>\<open>toFixed(2)\<close> returns.
\<close>

record quote =
  q_bid :: "fixed option"
  q_ask :: "fixed option"
  q_last :: "fixed option"
  q_high :: "fixed option"
  q_low :: "fixed option"
  q_previousClose :: "fixed option"
  q_bidSize :: "int option"
  q_askSize :: "int option"
  q_volume :: "int option"
  q_spread :: "fixed option"

definition emptyQuote :: quote where
  "emptyQuote =
     \<lparr>q_bid = None, q_ask = None, q_last = None, q_high = None, q_low = None,
      q_previousClose = None, q_bidSize = None, q_askSize = None, q_volume = None,
      q_spread = None\<rparr>"

text \<open>
  \<^verbatim>\<open>validateSymbol\<close>: the pattern \<^verbatim>\<open>/^[A-Z0-9]+$/\<close>; the function returns whether the
  symbol passes (the source throws \<^verbatim>\<open>McpError(InvalidParams, ...)\<close> when it does not).
\<close>

definition validateSymbol :: "string \<Rightarrow> bool" where
  "validateSymbol symb \<longleftrightarrow>
     symb \<noteq> [] \<and> list_all (\<lambda>c. c \<in> set ''ABCDEFGHIJKLMNOPQRSTUVWXYZ0123456789'') symb"

text \<open>
  The handlers that the server binds on \<^verbatim>\<open>ib\<close>: the two of a \<^verbatim>\<open>getQuote\<close> call, named
  by the index of the call, and the two that the \<^verbatim>\<open>connect\<close> tool binds.
\<close>

datatype quote_handler =
  PriceHandler nat | SizeHandler nat | ErrorHandler | ConnectionClosedHandler

text \<open>
  The closure of one call: \<^verbatim>\<open>tickerId\<close>, the object \<^verbatim>\<open>quote\<close>, the counter
  \<^verbatim>\<open>priceReceived\<close>, the timer, and the calls of \<^verbatim>\<open>resolve\<close>.
\<close>

record quote_call =
  qc_tickerId :: int
  qc_quote :: quote
  priceReceived :: nat
  qc_timeout :: bool
  qc_settled :: "quote outcome list"

text \<open>
  The module state: \<^verbatim>\<open>isConnected\<close>, the limiter, the registry (\<^verbatim>\<open>ib\<close> with the
  listeners of the \<^verbatim>\<open>IBApi\<close> it holds, and the cleanup map), \<^verbatim>\<open>activeSubscriptions\<close>
  (ticker id and time stamp, in insertion order), the ids passed to \<^verbatim>\<open>cancelMktData\<close> in
  order, and the closures of the calls made so far. \<open>qs_exited\<close> is set once the process
  has ended with \<^verbatim>\<open>process.exit(1)\<close>, which the handler of \<^verbatim>\<open>uncaughtException\<close> calls.
\<close>

record quote_server =
  qs_exited :: bool
  qs_isConnected :: bool
  qs_limiter :: limiter
  qs_registry :: "quote_handler registry"
  qs_activeSubscriptions :: "(int \<times> int) list"
  qs_cancelMktData :: "int list"
  qs_calls :: "quote_call list"

text \<open>
  The tool calls \<^verbatim>\<open>connect\<close>, \<^verbatim>\<open>disconnect\<close> and \<^verbatim>\<open>getQuote\<close>, the events that \<^verbatim>\<open>ib\<close>
  emits, and the expiry of the timer of a call. \<open>ConnectTool\<close> carries the arguments, the
  answer of \<^verbatim>\<open>await ib.disconnect()\<close> on the previous \<^verbatim>\<open>ib\<close> and the answer of
  \<^verbatim>\<open>await ib.connect()\<close>; \<open>DisconnectTool\<close> carries the answer of \<^verbatim>\<open>await ib.disconnect()\<close>.
  An answer is \<open>None\<close> when the call returned and \<open>Some msg\<close> when it threw an error with
  the message \<open>msg\<close>. \<open>GetQuote\<close> carries \<^verbatim>\<open>Date.now()\<close> and the symbol.
\<close>

datatype quote_event =
    ConnectTool "connect_args option" "string option" "string option"
  | DisconnectTool "string option"
  | GetQuote int string
  | EmitError int
  | EmitConnectionClosed
  | EmitTickPrice int nat real
  | EmitTickSize int nat int
  | QuoteTimeoutFires nat

text \<open>The module state when the module has been loaded.\<close>

definition qs_loaded :: quote_server where
  "qs_loaded =
     \<lparr>qs_exited = False,
      qs_isConnected = False,
      qs_limiter = \<lparr>requestCounter = 10000, requestTimestamps = []\<rparr>,
      qs_registry = \<lparr>ibSet = False, listeners = [], eventListenerCleanup = (\<lambda>k. None)\<rparr>,
      qs_activeSubscriptions = [],
      qs_cancelMktData = [],
      qs_calls = []\<rparr>"

text \<open>
  \<^verbatim>\<open>connectSchema\<close>: the host a string, the port a number from 1 to 65535, the client id
  a number from 0 to 999, each with a default for a missing key.
\<close>

definition numberWithin :: "real \<Rightarrow> real \<Rightarrow> js_value \<Rightarrow> bool" where
  "numberWithin lo hi v =
     (case v of JsUndefined \<Rightarrow> True | JsNumber x \<Rightarrow> lo \<le> x \<and> x \<le> hi | _ \<Rightarrow> False)"

definition connectSchemaAccepts :: "connect_args option \<Rightarrow> bool" where
  "connectSchemaAccepts args =
     (case args of
        None \<Rightarrow> False
      | Some a \<Rightarrow>
          stringIssue ''host'' (arg_host a) = [] \<and> numberWithin 1 65535 (arg_port a)
          \<and> numberWithin 0 999 (arg_clientId a))"

text \<open>
  The \<^verbatim>\<open>catch\<close> of the request handler, for an error that is not an \<^verbatim>\<open>McpError\<close>:
  \<^verbatim>\<open>isConnected\<close> is cleared when the message contains one of two texts.
\<close>

definition containsText :: "string \<Rightarrow> string \<Rightarrow> bool" where
  "containsText s sub = list_ex (\<lambda>i. take (length sub) (drop i s) = sub) [0..<Suc (length s)]"

definition qs_catch :: "string \<Rightarrow> quote_server \<Rightarrow> quote_server" where
  "qs_catch msg s =
     (if containsText msg ''Not connected'' \<or> containsText msg ''ECONNREFUSED''
      then s\<lparr>qs_isConnected := False\<rparr> else s)"

text \<open>
  The \<^verbatim>\<open>connect\<close> tool. Arguments that the schema rejects throw a \<^verbatim>\<open>ZodError\<close> before
  anything is changed; its message, the list of the issues, contains neither of the two
  texts. A previous \<^verbatim>\<open>ib\<close> is disconnected and \<^verbatim>\<open>isConnected\<close> cleared; \<^verbatim>\<open>ib\<close> is then
  a new \<^verbatim>\<open>IBApi\<close>, which has no listeners, and the two global handlers are bound on it.
  The cleanup map and the timers of the calls in flight are left as they are.
\<close>

definition qs_connect ::
  "connect_args option \<Rightarrow> string option \<Rightarrow> string option \<Rightarrow> quote_server \<Rightarrow> quote_server" where
  "qs_connect args previous transport s =
     (if \<not> connectSchemaAccepts args then s
      else
        (case (if ibSet (qs_registry s) then previous else None) of
           Some msg \<Rightarrow> qs_catch msg s
         | None \<Rightarrow>
             (let s1 = (if ibSet (qs_registry s) then s\<lparr>qs_isConnected := False\<rparr> else s);
                  s2 = s1\<lparr>qs_registry :=
                         addListener E_connectionClosed ConnectionClosedHandler None
                           (addListener E_error ErrorHandler None
                              ((qs_registry s1)\<lparr>ibSet := True, listeners := []\<rparr>))\<rparr>
              in case transport of
                   None \<Rightarrow> s2\<lparr>qs_isConnected := True\<rparr>
                 | Some msg \<Rightarrow> qs_catch msg s2)))"

text \<open>
  The request id under which a handler was registered: the ticker id of its call, and
  none for the two global handlers.
\<close>

fun qs_reqId :: "quote_server \<Rightarrow> quote_handler \<Rightarrow> int option" where
  "qs_reqId s (PriceHandler k) = Some (qc_tickerId (qs_calls s ! k))"
| "qs_reqId s (SizeHandler k) = Some (qc_tickerId (qs_calls s ! k))"
| "qs_reqId s ErrorHandler = None"
| "qs_reqId s ConnectionClosedHandler = None"

text \<open>
  The \<^verbatim>\<open>disconnect\<close> tool. Every active subscription is passed to \<^verbatim>\<open>cancelMktData\<close>
  (all of them have the type \<^verbatim>\<open>'market'\<close>) and the map is cleared; every closure of the
  cleanup map is run and the map is cleared: a bound handler is removed when the entry
  under its own key is the closure that was stored for it. Then \<^verbatim>\<open>ib\<close> is disconnected and
  set to \<^verbatim>\<open>null\<close>. The timers of the calls in flight are not cleared.
\<close>

definition qs_disconnect :: "string option \<Rightarrow> quote_server \<Rightarrow> quote_server" where
  "qs_disconnect answer s =
     (if ibSet (qs_registry s) \<and> qs_isConnected s
      then
        (let s1 = s\<lparr>qs_cancelMktData := qs_cancelMktData s @ map fst (qs_activeSubscriptions s),
                    qs_activeSubscriptions := [],
                    qs_registry := (qs_registry s)
                      \<lparr>listeners :=
                         filter (\<lambda>l. eventListenerCleanup (qs_registry s)
                                        (cleanupKey (fst l) (qs_reqId s (snd l))) \<noteq> Some l)
                           (listeners (qs_registry s)),
                       eventListenerCleanup := (\<lambda>k. None)\<rparr>\<rparr>
         in case answer of
              None \<Rightarrow>
                s1\<lparr>qs_registry := (qs_registry s1)\<lparr>ibSet := False, listeners := []\<rparr>,
                   qs_isConnected := False\<rparr>
            | Some msg \<Rightarrow> qs_catch msg s1)
      else s)"

text \<open>
  \<^verbatim>\<open>Map.set\<close> and \<^verbatim>\<open>Map.delete\<close> on a map kept in insertion order: an existing key keeps
  its place.
\<close>

definition mapSet :: "'k \<Rightarrow> 'v \<Rightarrow> ('k \<times> 'v) list \<Rightarrow> ('k \<times> 'v) list" where
  "mapSet k v m =
     (if k \<in> fst ` set m then map (\<lambda>e. if fst e = k then (k, v) else e) m else m @ [(k, v)])"

definition mapDelete :: "'k \<Rightarrow> ('k \<times> 'v) list \<Rightarrow> ('k \<times> 'v) list" where
  "mapDelete k m = filter (\<lambda>e. fst e \<noteq> k) m"

definition qs_update :: "nat \<Rightarrow> (quote_call \<Rightarrow> quote_call) \<Rightarrow> quote_server \<Rightarrow> quote_server" where
  "qs_update k f s =
     (if k < length (qs_calls s) then s\<lparr>qs_calls := (qs_calls s)[k := f (qs_calls s ! k)]\<rparr> else s)"

text \<open>
  The statements that the timeout and the terminal branch share:
  \<^verbatim>\<open>ib.cancelMktData(tickerId); activeSubscriptions.delete(tickerId);
  cleanupListeners([tickPrice, tickSize], tickerId)\<close>.
\<close>

definition qs_release :: "int \<Rightarrow> quote_server \<Rightarrow> quote_server" where
  "qs_release tickerId s =
     s\<lparr>qs_cancelMktData := qs_cancelMktData s @ [tickerId],
       qs_activeSubscriptions := mapDelete tickerId (qs_activeSubscriptions s),
       qs_registry := cleanupListeners [E_tickPrice, E_tickSize] (Some tickerId) (qs_registry s)\<rparr>"

text \<open>The \<^verbatim>\<open>switch (tickType)\<close> of \<^verbatim>\<open>priceHandler\<close>.\<close>

definition priceSwitch :: "nat \<Rightarrow> real \<Rightarrow> quote_call \<Rightarrow> quote_call" where
  "priceSwitch tickType price c =
     (if tickType = 1
        then c\<lparr>qc_quote := (qc_quote c)\<lparr>q_bid := Some (ToFixed 2 price)\<rparr>,
               priceReceived := priceReceived c + 1\<rparr>
      else if tickType = 2
        then c\<lparr>qc_quote := (qc_quote c)\<lparr>q_ask := Some (ToFixed 2 price)\<rparr>,
               priceReceived := priceReceived c + 1\<rparr>
      else if tickType = 4
        then c\<lparr>qc_quote := (qc_quote c)\<lparr>q_last := Some (ToFixed 2 price)\<rparr>,
               priceReceived := priceReceived c + 1\<rparr>
      else if tickType = 6
        then c\<lparr>qc_quote := (qc_quote c)\<lparr>q_high := Some (ToFixed 2 price)\<rparr>\<rparr>
      else if tickType = 7
        then c\<lparr>qc_quote := (qc_quote c)\<lparr>q_low := Some (ToFixed 2 price)\<rparr>\<rparr>
      else if tickType = 9
        then c\<lparr>qc_quote := (qc_quote c)\<lparr>q_previousClose := Some (ToFixed 2 price)\<rparr>\<rparr>
      else c)"

text \<open>The \<^verbatim>\<open>switch (tickType)\<close> of \<^verbatim>\<open>sizeHandler\<close>.\<close>

definition sizeSwitch :: "nat \<Rightarrow> int \<Rightarrow> quote_call \<Rightarrow> quote_call" where
  "sizeSwitch tickType sz c =
     (if tickType = 0 then c\<lparr>qc_quote := (qc_quote c)\<lparr>q_bidSize := Some sz\<rparr>\<rparr>
      else if tickType = 3 then c\<lparr>qc_quote := (qc_quote c)\<lparr>q_askSize := Some sz\<rparr>\<rparr>
      else if tickType = 8 then c\<lparr>qc_quote := (qc_quote c)\<lparr>q_volume := Some sz\<rparr>\<rparr>
      else c)"

text \<open>
  \<^verbatim>\<open>if (quote.bid && quote.ask) quote.spread =
  (parseFloat(quote.ask) - parseFloat(quote.bid)).toFixed(2)\<close>: both texts are non-empty
  when set.
\<close>

definition withSpread :: "quote \<Rightarrow> quote" where
  "withSpread q =
     (case (q_bid q, q_ask q) of
        (Some b, Some a) \<Rightarrow> q\<lparr>q_spread := Some (DifferenceToFixed 2 a b)\<rparr>
      | _ \<Rightarrow> q)"

definition qc_resolve :: "quote_call \<Rightarrow> quote_call" where
  "qc_resolve c = c\<lparr>qc_settled := qc_settled c @ [Resolved (qc_quote c)]\<rparr>"

definition priceHandler :: "nat \<Rightarrow> int \<Rightarrow> nat \<Rightarrow> real \<Rightarrow> quote_server \<Rightarrow> quote_server" where
  "priceHandler k id' tickType price s =
     (if k < length (qs_calls s) \<and> id' = qc_tickerId (qs_calls s ! k) \<and> price > 0
      then
        (let s1 = qs_update k (priceSwitch tickType price) s in
         if priceReceived (qs_calls s1 ! k) \<ge> 3
         then qs_update k (\<lambda>c. qc_resolve (c\<lparr>qc_quote := withSpread (qc_quote c)\<rparr>))
                (qs_release (qc_tickerId (qs_calls s ! k))
                   (qs_update k (\<lambda>c. c\<lparr>qc_timeout := False\<rparr>) s1))
         else s1)
      else s)"

definition sizeHandler :: "nat \<Rightarrow> int \<Rightarrow> nat \<Rightarrow> int \<Rightarrow> quote_server \<Rightarrow> quote_server" where
  "sizeHandler k id' tickType sz s =
     (if k < length (qs_calls s) \<and> id' = qc_tickerId (qs_calls s ! k)
      then qs_update k (sizeSwitch tickType sz) s
      else s)"

text \<open>
  The callback of the timer. Its first statement is \<^verbatim>\<open>ib!.cancelMktData(tickerId)\<close>:
  when \<^verbatim>\<open>ib\<close> is \<^verbatim>\<open>null\<close> it throws before anything else, nothing catches the exception
  and the process ends.
\<close>

definition quoteTimeout :: "nat \<Rightarrow> quote_server \<Rightarrow> quote_server" where
  "quoteTimeout k s =
     (if ibSet (qs_registry s)
      then qs_update k qc_resolve (qs_release (qc_tickerId (qs_calls s ! k)) s)
      else s\<lparr>qs_exited := True\<rparr>)"

text \<open>
  The tool call up to the return of its promise. The three throws (not connected,
  invalid symbol, rate limit) leave no call behind; the rate limiter keeps its pruned
  window.
\<close>

definition getQuote :: "int \<Rightarrow> string \<Rightarrow> quote_server \<Rightarrow> quote_server" where
  "getQuote now symb s =
     (if \<not> ibSet (qs_registry s) \<or> \<not> qs_isConnected s then s
      else if \<not> validateSymbol symb then s
      else
        (case getNextReqId MAX_REQUESTS_PER_SECOND now (qs_limiter s) of
           (Inl e, l) \<Rightarrow> s\<lparr>qs_limiter := l\<rparr>
         | (Inr tickerId, l) \<Rightarrow>
             s\<lparr>qs_limiter := l,
               qs_activeSubscriptions := mapSet tickerId now (qs_activeSubscriptions s),
               qs_calls := qs_calls s @
                 [\<lparr>qc_tickerId = tickerId, qc_quote = emptyQuote, priceReceived = 0,
                   qc_timeout = True, qc_settled = []\<rparr>],
               qs_registry :=
                 addListener E_tickSize (SizeHandler (length (qs_calls s))) (Some tickerId)
                   (addListener E_tickPrice (PriceHandler (length (qs_calls s))) (Some tickerId)
                      (qs_registry s))\<rparr>))"

text \<open>
  The error handler clears \<^verbatim>\<open>isConnected\<close> for the codes 504 and 502, the handler of
  \<^verbatim>\<open>connectionClosed\<close> always.
\<close>

fun qs_handle :: "quote_event \<Rightarrow> quote_server \<Rightarrow> quote_handler \<Rightarrow> quote_server" where
  "qs_handle (EmitTickPrice id' tickType price) s (PriceHandler k) =
     priceHandler k id' tickType price s"
| "qs_handle (EmitTickSize id' tickType sz) s (SizeHandler k) = sizeHandler k id' tickType sz s"
| "qs_handle (EmitError code) s ErrorHandler =
     (if code = 504 \<or> code = 502 then s\<lparr>qs_isConnected := False\<rparr> else s)"
| "qs_handle EmitConnectionClosed s ConnectionClosedHandler = s\<lparr>qs_isConnected := False\<rparr>"
| "qs_handle ev s h = s"

definition qs_emit :: "event_name \<Rightarrow> quote_event \<Rightarrow> quote_server \<Rightarrow> quote_server" where
  "qs_emit eventName ev s =
     foldl (qs_handle ev) s (listenersOf eventName (listeners (qs_registry s)))"

fun qs_dispatch :: "quote_server \<Rightarrow> quote_event \<Rightarrow> quote_server" where
  "qs_dispatch s (ConnectTool args previous transport) = qs_connect args previous transport s"
| "qs_dispatch s (DisconnectTool answer) = qs_disconnect answer s"
| "qs_dispatch s (GetQuote now symb) = getQuote now symb s"
| "qs_dispatch s (EmitError code) = qs_emit E_error (EmitError code) s"
| "qs_dispatch s EmitConnectionClosed = qs_emit E_connectionClosed EmitConnectionClosed s"
| "qs_dispatch s (EmitTickPrice id' tickType price) =
     qs_emit E_tickPrice (EmitTickPrice id' tickType price) s"
| "qs_dispatch s (EmitTickSize id' tickType sz) =
     qs_emit E_tickSize (EmitTickSize id' tickType sz) s"
| "qs_dispatch s (QuoteTimeoutFires k) =
     (if k < length (qs_calls s) \<and> qc_timeout (qs_calls s ! k)
      then quoteTimeout k (qs_update k (\<lambda>c. c\<lparr>qc_timeout := False\<rparr>) s)
      else s)"

text \<open>Nothing happens in a process that has ended.\<close>

definition qs_step :: "quote_server \<Rightarrow> quote_event \<Rightarrow> quote_server" where
  "qs_step s e = (if qs_exited s then s else qs_dispatch s e)"

definition qs_run :: "quote_event list \<Rightarrow> quote_server" where
  "qs_run evs = foldl qs_step qs_loaded evs"

text \<open>A \<^verbatim>\<open>connect\<close> call without arguments whose transport connects.\<close>

definition connects :: quote_event where
  "connects = ConnectTool (Some noArgs) None None"

subsection \<open>A timer is armed exactly while its call is pending\<close>

definition qc_armedIffPending :: "quote_call \<Rightarrow> bool" where
  "qc_armedIffPending c \<longleftrightarrow> (qc_timeout c \<longleftrightarrow> qc_settled c = [])"

definition qs_timers :: "quote_server \<Rightarrow> bool" where
  "qs_timers s \<longleftrightarrow> qs_exited s \<or> list_all qc_armedIffPending (qs_calls s)"

lemma qs_timers_calls:
  "qs_calls s' = qs_calls s \<Longrightarrow> qs_exited s' = qs_exited s \<Longrightarrow> qs_timers s' = qs_timers s"
  by (simp add: qs_timers_def)





lemma qs_update_frame [simp]:
  "qs_exited (qs_update k f s) = qs_exited s"
  "qs_registry (qs_update k f s) = qs_registry s"
  "length (qs_calls (qs_update k f s)) = length (qs_calls s)"
  by (simp_all add: qs_update_def)

lemma qs_release_frame [simp]:
  "qs_exited (qs_release t s) = qs_exited s"
  "qs_calls (qs_release t s) = qs_calls s"
  by (simp_all add: qs_release_def)



lemma priceHandler_exited [simp]:
  "qs_exited (priceHandler k id' tickType price s) = qs_exited s"
  by (simp add: priceHandler_def Let_def)




lemma qs_timers_isConnected [simp]: "qs_timers (s\<lparr>qs_isConnected := b\<rparr>) = qs_timers s"
  by (simp add: qs_timers_def)



lemma qs_catch_frame [simp]:
  "qs_calls (qs_catch msg s) = qs_calls s"
  "qs_exited (qs_catch msg s) = qs_exited s"
  by (simp_all add: qs_catch_def)









lemmas qs_eval =
  qs_run_def qs_step_def qs_loaded_def connects_def qs_connect_def connectSchemaAccepts_def
  noArgs_def stringIssue_def numberWithin_def qs_disconnect_def qs_emit_def getQuote_def
  validateSymbol_def getNextReqId_def checkRateLimit_def MAX_REQUESTS_PER_SECOND_def
  mapSet_def mapDelete_def addListener_def cleanupListeners_def cleanupListener_def cleanupKey_def removeListener_def
  listenersOf_def priceHandler_def sizeHandler_def quoteTimeout_def qs_update_def
  qs_release_def priceSwitch_def sizeSwitch_def withSpread_def qc_resolve_def emptyQuote_def

text \<open>
  The timers outlive the connection. A call is in flight when \<^verbatim>\<open>disconnect\<close> is called:
  its ticker id is passed to \<^verbatim>\<open>cancelMktData\<close>, its promise stays pending and its timer
  armed. If the timer fires while \<^verbatim>\<open>ib\<close> is \<^verbatim>\<open>null\<close> the process ends with the promise
  pending; if the server has been connected again the promise resolves and the ticker id
  is passed to \<^verbatim>\<open>cancelMktData\<close> a second time.
\<close>

lemma timer_after_disconnect:
  "qs_cancelMktData (qs_run [connects, GetQuote 0 ''AAPL'', DisconnectTool None]) = [10000]
   \<and> qc_settled (qs_calls (qs_run [connects, GetQuote 0 ''AAPL'', DisconnectTool None]) ! 0) = []
   \<and> qs_exited (qs_run [connects, GetQuote 0 ''AAPL'', DisconnectTool None, QuoteTimeoutFires 0])
   \<and> qc_settled (qs_calls (qs_run
        [connects, GetQuote 0 ''AAPL'', DisconnectTool None, QuoteTimeoutFires 0]) ! 0) = []
   \<and> qc_settled (qs_calls (qs_run
        [connects, GetQuote 0 ''AAPL'', DisconnectTool None, connects, QuoteTimeoutFires 0]) ! 0) =
       [Resolved emptyQuote]
   \<and> qs_cancelMktData (qs_run
        [connects, GetQuote 0 ''AAPL'', DisconnectTool None, connects, QuoteTimeoutFires 0]) =
       [10000, 10000]"
  by (simp add: qs_eval)

section \<open>Partial results at the deadline\<close>








section \<open>The terminal condition of a scalar quote\<close>

text \<open>
  C3 on this code. The price handler of the secure server's \<^verbatim>\<open>getQuote\<close> counts events,
  not distinct fields: a quote request that receives the bid three times is still pending
  after the second and resolves on the third, with the bid as its only price and neither
  ask nor last. The fields themselves are merged by name, the last write winning. A
  request that receives bid, ask and last resolves on the third with the three prices
  and the spread.
\<close>

theorem duplicates_reach_threshold:
  "qc_settled (qs_calls (qs_run
      [connects, GetQuote 0 ''AAPL'', EmitTickPrice 10000 1 10, EmitTickPrice 10000 1 10]) ! 0) = []
   \<and> qc_settled (qs_calls (qs_run
      [connects, GetQuote 0 ''AAPL'', EmitTickPrice 10000 1 10, EmitTickPrice 10000 1 10,
       EmitTickPrice 10000 1 10]) ! 0) = [Resolved (emptyQuote\<lparr>q_bid := Some (ToFixed 2 10)\<rparr>)]
   \<and> q_ask (emptyQuote\<lparr>q_bid := Some (ToFixed 2 10)\<rparr>) = None
   \<and> q_last (emptyQuote\<lparr>q_bid := Some (ToFixed 2 10)\<rparr>) = None
   \<and> qc_settled (qs_calls (qs_run
      [connects, GetQuote 0 ''AAPL'', EmitTickPrice 10000 1 10, EmitTickPrice 10000 1 12,
       EmitTickPrice 10000 1 11]) ! 0) = [Resolved (emptyQuote\<lparr>q_bid := Some (ToFixed 2 11)\<rparr>)]
   \<and> qc_settled (qs_calls (qs_run
      [connects, GetQuote 0 ''AAPL'', EmitTickPrice 10000 1 10, EmitTickPrice 10000 2 11]) ! 0) = []
   \<and> qc_settled (qs_calls (qs_run
      [connects, GetQuote 0 ''AAPL'', EmitTickPrice 10000 1 10, EmitTickPrice 10000 2 11,
       EmitTickPrice 10000 4 (21 / 2)]) ! 0) =
      [Resolved (emptyQuote\<lparr>q_bid := Some (ToFixed 2 10), q_ask := Some (ToFixed 2 11),
         q_last := Some (ToFixed 2 (21 / 2)),
         q_spread := Some (DifferenceToFixed 2 (ToFixed 2 11) (ToFixed 2 10))\<rparr>)]"
  by (simp add: qs_eval)

end
